theory Spec2Isabelle
  imports Complex_Main
begin

section \<open>Data model\<close>

text \<open>
  Times are JavaScript time values: milliseconds since the epoch, as \<open>int\<close>.
  Identifiers are the strings Prisma hands out for \<open>@db.ObjectId\<close> columns.
  A handler takes the database, the clock reading of the request and, where it
  creates a record, the identifier generated for it (an ObjectId holds a time stamp, a
  random value of the generating process and a counter); it returns the response and
  the database after the request.
\<close>

datatype EntryType = ENTRY | EXIT

text \<open>Model \<open>GateEntry\<close> of the Prisma schema (\<open>updatedAt\<close> and the relation are left out).\<close>

record GateEntry =
  ge_id :: string
  ge_type :: EntryType
  ge_person :: string
  ge_apartment :: string
  ge_entryType :: string
  ge_vehicle :: string
  ge_gate :: string
  ge_method :: string
  ge_residentId :: "string option"
  ge_createdAt :: int

datatype ApprovalStatus = PENDING | APPROVED | REJECTED

text \<open>
  Model \<open>Resident\<close>; the optional KYC columns, which no handler below reads, are left
  out. \<open>email\<close>, \<open>apartment\<close> and \<open>username\<close> are \<open>@unique\<close>.
\<close>

record Resident =
  r_id :: string
  r_name :: string
  r_apartment :: string
  r_email :: string
  r_phone :: string
  r_familyMembers :: int
  r_username :: "string option"
  r_password :: "string option"
  r_status :: string
  r_approvalStatus :: ApprovalStatus

record Admin =
  a_id :: string
  a_status :: bool

datatype ServiceProviderStatus = SP_PENDING | SP_ACTIVE | SP_REJECTED | SP_SUSPENDED

record ServiceProvider =
  sp_id :: string
  sp_status :: ServiceProviderStatus

datatype EmployeeStatus = EMP_ACTIVE | EMP_INACTIVE

record Employee =
  emp_id :: string
  emp_status :: EmployeeStatus

datatype BillStatus = BILL_PENDING | BILL_PAID | BILL_OVERDUE

record MaintenanceBill =
  b_id :: string
  b_status :: BillStatus
  b_dueDate :: int
  b_paidDate :: "int option"

record database =
  admins :: "Admin list"
  residents :: "Resident list"
  serviceProviders :: "ServiceProvider list"
  employees :: "Employee list"
  gateEntries :: "GateEntry list"
  maintenanceBills :: "MaintenanceBill list"

definition emptyDb :: database where
  "emptyDb = \<lparr>admins = [], residents = [], serviceProviders = [], employees = [],
     gateEntries = [], maintenanceBills = []\<rparr>"

subsection \<open>Tokens\<close>

text \<open>The payload the login handlers sign: \<open>{ id, type, email }\<close>.\<close>

record JwtUser =
  u_id :: string
  u_type :: string
  u_email :: string

text \<open>
  A JSON Web Token is represented by what it encodes: the payload, the issue and expiry
  times in seconds, and the secret it was signed with.
\<close>

record Jwt =
  jwt_payload :: JwtUser
  jwt_iat :: int
  jwt_exp :: int
  jwt_secret :: string

text \<open>One space-separated part of an \<open>Authorization\<close> header value.\<close>

datatype HeaderPart = Word string | JwtString Jwt

subsection \<open>Exceptions\<close>

text \<open>
  The properties of a thrown error that the handlers read. A computation that can throw
  returns \<open>JsError + 'a\<close>, \<open>Inl\<close> for the exception. The message texts of
  library errors are abbreviated.
\<close>

record JsError =
  e_name :: "string option"
  e_code :: "string option"
  e_statusCode :: "nat option"
  e_status :: "nat option"
  e_message :: "string option"

definition mkError :: "string \<Rightarrow> string option \<Rightarrow> string \<Rightarrow> JsError" where
  "mkError n c m = \<lparr>e_name = Some n, e_code = c, e_statusCode = None, e_status = None,
     e_message = Some m\<rparr>"

definition zodError :: "string \<Rightarrow> JsError" where
  "zodError m = mkError ''ZodError'' None m"

definition prismaValidationError :: "string \<Rightarrow> JsError" where
  "prismaValidationError m = mkError ''PrismaClientValidationError'' None m"

definition prismaKnownError :: "string \<Rightarrow> string \<Rightarrow> JsError" where
  "prismaKnownError c m = mkError ''PrismaClientKnownRequestError'' (Some c) m"

definition jsonWebTokenError :: "string \<Rightarrow> JsError" where
  "jsonWebTokenError m = mkError ''JsonWebTokenError'' None m"

definition tokenExpiredError :: JsError where
  "tokenExpiredError = mkError ''TokenExpiredError'' None ''jwt expired''"

definition typeError :: "string \<Rightarrow> JsError" where
  "typeError m = mkError ''TypeError'' None m"

definition bsonError :: "string \<Rightarrow> JsError" where
  "bsonError m = mkError ''BSONError'' None m"

text \<open>\<open>try { ... } catch (error) { ... }\<close>\<close>

definition tryCatch :: "(JsError + 'a) \<Rightarrow> (JsError \<Rightarrow> 'a) \<Rightarrow> 'a" where
  "tryCatch r h = (case r of Inl e \<Rightarrow> h e | Inr v \<Rightarrow> v)"

text \<open>\<open>error instanceof Error ? error.message : "Invalid input"\<close>; every exception of the model is an \<open>Error\<close>.\<close>

definition errorMessage :: "JsError \<Rightarrow> string" where
  "errorMessage e = (case e_message e of Some m \<Rightarrow> m | None \<Rightarrow> [])"

text \<open>A computation that can throw, followed by one that uses its result.\<close>

definition andThen :: "(JsError + 'a) \<Rightarrow> ('a \<Rightarrow> JsError + 'b) \<Rightarrow> JsError + 'b" where
  "andThen r f = (case r of Inl e \<Rightarrow> Inl e | Inr v \<Rightarrow> f v)"

subsection \<open>JavaScript values\<close>

text \<open>
  A value read from a request body or from the output of \<open>JSON.parse\<close>: a missing
  property (\<open>undefined\<close>), \<open>null\<close>, a boolean, a number, a string, or an array or
  object. A finite number is its value together with its string conversion, which the
  model does not compute; \<open>Infinity True\<close> is \<open>Infinity\<close> and \<open>Infinity False\<close> is
  \<open>-Infinity\<close>, the values \<open>JSON.parse\<close> gives a literal too large for a double. An
  array or object is represented by its string conversion.
\<close>

datatype JsValue =
    Undefined
  | Null
  | Boolean bool
  | Number rat string
  | Infinity bool
  | Str string
  | Compound string

text \<open>A value inside a template literal.\<close>

fun jsString :: "JsValue \<Rightarrow> string" where
  "jsString Undefined = ''undefined''"
| "jsString Null = ''null''"
| "jsString (Boolean b) = (if b then ''true'' else ''false'')"
| "jsString (Number q s) = s"
| "jsString (Infinity pos) = (if pos then ''Infinity'' else ''-Infinity'')"
| "jsString (Str s) = s"
| "jsString (Compound s) = s"

text \<open>Truthiness, and \<open>x || d\<close> for a string \<open>d\<close>.\<close>

fun truthy :: "JsValue \<Rightarrow> bool" where
  "truthy Undefined = False"
| "truthy Null = False"
| "truthy (Boolean b) = b"
| "truthy (Number q s) = (q \<noteq> 0)"
| "truthy (Infinity pos) = True"
| "truthy (Str s) = (s \<noteq> [])"
| "truthy (Compound s) = True"

definition orElse :: "JsValue \<Rightarrow> string \<Rightarrow> JsValue" where
  "orElse x d = (if truthy x then x else Str d)"

fun isStr :: "JsValue \<Rightarrow> bool" where
  "isStr (Str s) = True"
| "isStr v = False"

text \<open>\<open>x || d\<close> for a property of an error that is a string or absent.\<close>

definition textOr :: "string option \<Rightarrow> string \<Rightarrow> string" where
  "textOr x d = (case x of None \<Rightarrow> d | Some s \<Rightarrow> (if s = [] then d else s))"

subsection \<open>Responses\<close>

record TodayStatistics =
  totalEntries :: nat
  totalExits :: nat
  currentOccupancy :: int
  guestEntries :: nat
  vehicleEntries :: nat

record BillStatistics =
  totalMaintenanceBills :: nat
  pendingBills :: nat
  paidBills :: nat
  overdueBills :: nat

text \<open>
  What a success body carries besides its message. \<open>RegisteredPayload\<close> is the
  \<open>id\<close>, \<open>name\<close>, \<open>email\<close>, \<open>apartment\<close>, \<open>status\<close> and
  \<open>approvalStatus\<close> of a new resident; \<open>HealthPayload\<close> is the time stamp and the
  environment name of the health check.
\<close>

datatype payload =
    NoPayload
  | EntryPayload GateEntry
  | ScanPayload GateEntry EntryType string string
  | StatsPayload TodayStatistics
  | BillStatsPayload BillStatistics
  | BillPayload MaintenanceBill
  | ResidentPayload Resident
  | RegisteredPayload string string string string string ApprovalStatus
  | TokenPayload HeaderPart
  | HealthPayload int "string option"

text \<open>
  \<open>res.status(n).json({error, message, ...})\<close>: the status code, the \<open>error\<close> and
  \<open>message\<close> fields of the body where it has them, and the rest of the body.
\<close>

record response =
  status :: nat
  error :: "string option"
  message :: "string option"
  body :: payload

definition errorJson :: "nat \<Rightarrow> string \<Rightarrow> string \<Rightarrow> response" where
  "errorJson code e m = \<lparr>status = code, error = Some e, message = Some m, body = NoPayload\<rparr>"

definition okJson :: "nat \<Rightarrow> string option \<Rightarrow> payload \<Rightarrow> response" where
  "okJson code m p = \<lparr>status = code, error = None, message = m, body = p\<rparr>"

text \<open>
  A reply is what the application hands to the response: a JSON object
  (\<open>res.json\<close>), or nothing at all (\<open>res.end()\<close> after
  \<open>Content-Length: 0\<close>). Of the reply to a \<open>HEAD\<close> request, which Express
  gives to the handler of the \<open>GET\<close>, Node sends the status and the headers only.
\<close>

datatype reply = Json response | EmptyBody nat

section \<open>Gate entries (routes/gateEntries.ts)\<close>

subsection \<open>The queries the handlers make\<close>

text \<open>
  A \<open>where\<close> clause over gate entries. Prisma leaves a field whose value is
  \<open>undefined\<close> out of the filter: \<open>None\<close> here.
\<close>

record GateWhere =
  w_person :: "string option"
  w_apartment :: "string option"
  w_vehicle :: "string option"
  w_entryType :: "string option"

fun fieldIs :: "string option \<Rightarrow> string \<Rightarrow> bool" where
  "fieldIs None v = True"
| "fieldIs (Some x) v = (x = v)"

definition matchesWhere :: "GateWhere \<Rightarrow> GateEntry \<Rightarrow> bool" where
  "matchesWhere w e =
     (fieldIs (w_person w) (ge_person e) \<and> fieldIs (w_apartment w) (ge_apartment e) \<and>
      fieldIs (w_vehicle w) (ge_vehicle e) \<and> fieldIs (w_entryType w) (ge_entryType e))"

text \<open>
  \<open>orderBy: { createdAt: "desc" }\<close> and the first row: the row with the greatest
  \<open>createdAt\<close>; among rows with the same \<open>createdAt\<close> the one stored first.
\<close>

fun newest :: "GateEntry list \<Rightarrow> GateEntry option" where
  "newest [] = None"
| "newest (e # es) =
     (case newest es of
        None \<Rightarrow> Some e
      | Some m \<Rightarrow> if ge_createdAt e < ge_createdAt m then Some m else Some e)"

definition findFirstGateEntry :: "database \<Rightarrow> GateWhere \<Rightarrow> GateEntry option" where
  "findFirstGateEntry db w = newest (filter (matchesWhere w) (gateEntries db))"

definition findFirstResidentByApartment :: "database \<Rightarrow> string option \<Rightarrow> Resident option" where
  "findFirstResidentByApartment db apt =
     (case filter (\<lambda>r. fieldIs apt (r_apartment r)) (residents db) of
        [] \<Rightarrow> None
      | r # _ \<Rightarrow> Some r)"

text \<open>
  A value given for a String column in a \<open>where\<close> clause: \<open>undefined\<close> is no filter,
  a string is an equality filter, and Prisma refuses \<open>null\<close>, a boolean, a number and
  an array. A filter object (\<open>{ contains: ... }\<close>) that a \<open>where\<close> would accept is
  refused by the \<open>create\<close> that follows in the same handler, where the same value is
  given for a String column, and the handler answers both errors in one \<open>catch\<close>: the
  model raises at the query.
\<close>

fun whereString :: "JsValue \<Rightarrow> JsError + string option" where
  "whereString Undefined = Inr None"
| "whereString (Str s) = Inr (Some s)"
| "whereString v = Inl (prismaValidationError ''Invalid value provided. Expected String'')"

definition findLastEntry :: "database \<Rightarrow> JsValue \<Rightarrow> JsValue \<Rightarrow> JsValue \<Rightarrow> string \<Rightarrow> JsError + GateEntry option" where
  "findLastEntry db person apartment vehicle entryType =
     andThen (whereString person) (\<lambda>p.
     andThen (whereString apartment) (\<lambda>a.
     andThen (whereString vehicle) (\<lambda>v.
       Inr (findFirstGateEntry db
              \<lparr>w_person = p, w_apartment = a, w_vehicle = v, w_entryType = Some entryType\<rparr>))))"

definition findHostResident :: "database \<Rightarrow> JsValue \<Rightarrow> JsError + Resident option" where
  "findHostResident db apartment =
     andThen (whereString apartment) (\<lambda>a. Inr (findFirstResidentByApartment db a))"

text \<open>The string form of an ObjectId: 24 hexadecimal digits.\<close>

definition isHexDigit :: "char \<Rightarrow> bool" where
  "isHexDigit c = (c \<in> set ''0123456789abcdefABCDEF'')"

definition isObjectId :: "string \<Rightarrow> bool" where
  "isObjectId s = (length s = 24 \<and> list_all isHexDigit s)"

text \<open>\<open>findUnique({ where: { id } })\<close>: Prisma throws when the string is not an ObjectId.\<close>

definition findUniqueById :: "('r \<Rightarrow> string) \<Rightarrow> 'r list \<Rightarrow> string \<Rightarrow> JsError + 'r option" where
  "findUniqueById getId rows i =
     (if isObjectId i then Inr (find (\<lambda>r. getId r = i) rows)
      else Inl (prismaKnownError ''P2023'' ''Malformed ObjectID''))"

text \<open>
  The \<open>data\<close> of \<open>prisma.gateEntry.create\<close>; \<open>d_type\<close> is \<open>None\<close> when the
  data has no \<open>type\<close>.
\<close>

record EntryData =
  d_type :: "EntryType option"
  d_person :: JsValue
  d_apartment :: JsValue
  d_entryType :: JsValue
  d_vehicle :: JsValue
  d_gate :: JsValue
  d_method :: JsValue
  d_residentId :: JsValue

fun orDefault :: "'a option \<Rightarrow> 'a \<Rightarrow> 'a" where
  "orDefault None d = d"
| "orDefault (Some x) d = x"

text \<open>
  What Prisma makes of a value given for a column: a required String column takes a
  string; a String column with a default takes a string or nothing; the optional
  ObjectId column takes nothing, \<open>null\<close> or a string of 24 hexadecimal digits; an Int
  column takes a whole number of 32 bits.
\<close>

fun requiredString :: "JsValue \<Rightarrow> JsError + string" where
  "requiredString (Str s) = Inr s"
| "requiredString Undefined = Inl (prismaValidationError ''Argument is missing'')"
| "requiredString v = Inl (prismaValidationError ''Invalid value provided. Expected String'')"

fun defaultedString :: "string \<Rightarrow> JsValue \<Rightarrow> JsError + string" where
  "defaultedString d Undefined = Inr d"
| "defaultedString d (Str s) = Inr s"
| "defaultedString d v = Inl (prismaValidationError ''Invalid value provided. Expected String'')"

fun optionalObjectId :: "JsValue \<Rightarrow> JsError + string option" where
  "optionalObjectId Undefined = Inr None"
| "optionalObjectId Null = Inr None"
| "optionalObjectId (Str s) =
     (if isObjectId s then Inr (Some s) else Inl (prismaKnownError ''P2023'' ''Malformed ObjectID''))"
| "optionalObjectId v = Inl (prismaValidationError ''Invalid value provided. Expected String'')"

definition isInt32 :: "rat \<Rightarrow> bool" where
  "isInt32 q = (of_int \<lfloor>q\<rfloor> = q \<and> - 2147483648 \<le> q \<and> q \<le> 2147483647)"

fun intColumn :: "JsValue \<Rightarrow> JsError + int" where
  "intColumn (Number q s) =
     (if isInt32 q then Inr \<lfloor>q\<rfloor>
      else Inl (prismaValidationError ''Unable to fit value into a 32-bit signed integer''))"
| "intColumn v = Inl (prismaValidationError ''Invalid value provided. Expected Int'')"

text \<open>
  \<open>prisma.gateEntry.create\<close> against the schema: \<open>person\<close>, \<open>apartment\<close> and
  \<open>entryType\<close> are required, \<open>residentId\<close> is an optional ObjectId, the other
  columns have defaults; \<open>createdAt\<close> is \<open>now()\<close>.
\<close>

definition createGateEntry :: "int \<Rightarrow> string \<Rightarrow> EntryData \<Rightarrow> JsError + GateEntry" where
  "createGateEntry now newId d =
     andThen (requiredString (d_person d)) (\<lambda>p.
     andThen (requiredString (d_apartment d)) (\<lambda>a.
     andThen (requiredString (d_entryType d)) (\<lambda>t.
     andThen (defaultedString ''None'' (d_vehicle d)) (\<lambda>v.
     andThen (defaultedString ''Main Gate'' (d_gate d)) (\<lambda>g.
     andThen (defaultedString ''Manual'' (d_method d)) (\<lambda>m.
     andThen (optionalObjectId (d_residentId d)) (\<lambda>r.
       Inr \<lparr>ge_id = newId, ge_type = orDefault (d_type d) ENTRY, ge_person = p,
            ge_apartment = a, ge_entryType = t, ge_vehicle = v, ge_gate = g, ge_method = m,
            ge_residentId = r, ge_createdAt = now\<rparr>)))))))"

definition addGateEntry :: "database \<Rightarrow> GateEntry \<Rightarrow> database" where
  "addGateEntry db e = db\<lparr>gateEntries := gateEntries db @ [e]\<rparr>"

subsection \<open>GET /stats/today\<close>

definition dayMs :: int where
  "dayMs = 86400000"

text \<open>
  \<open>today.setHours(0, 0, 0, 0)\<close>: local midnight, for a zone \<open>tz\<close> milliseconds
  ahead of UTC, and the midnight after it. The offset is fixed: a day on which the clocks
  change is outside the model. The counts of this handler do not throw (a lost database
  connection is outside the model), so its \<open>catch\<close> has no branch here.
\<close>

definition startOfDay :: "int \<Rightarrow> int \<Rightarrow> int" where
  "startOfDay tz now = now - ((now + tz) mod dayMs)"

definition nextDay :: "int \<Rightarrow> int" where
  "nextDay today = today + dayMs"

definition createdWithin :: "int \<Rightarrow> int \<Rightarrow> GateEntry \<Rightarrow> bool" where
  "createdWithin lo hi e = (lo \<le> ge_createdAt e \<and> ge_createdAt e < hi)"

definition countGateEntries :: "database \<Rightarrow> (GateEntry \<Rightarrow> bool) \<Rightarrow> nat" where
  "countGateEntries db p = length (filter p (gateEntries db))"

definition statsToday :: "database \<Rightarrow> int \<Rightarrow> int \<Rightarrow> response \<times> database" where
  "statsToday db tz now =
     (let today = startOfDay tz now;
          tomorrow = nextDay today;
          nEntries = countGateEntries db (\<lambda>e. ge_type e = ENTRY \<and> createdWithin today tomorrow e);
          nExits = countGateEntries db (\<lambda>e. ge_type e = EXIT \<and> createdWithin today tomorrow e);
          nGuests = countGateEntries db (\<lambda>e. ge_entryType e = ''Guest'' \<and> createdWithin today tomorrow e);
          nVehicles = countGateEntries db
            (\<lambda>e. ge_entryType e \<in> set [''Resident Vehicle'', ''Service Provider'']
                 \<and> createdWithin today tomorrow e);
          occupancy = max 0 (int nEntries - int nExits)
      in (okJson 200 None (StatsPayload \<lparr>totalEntries = nEntries, totalExits = nExits,
             currentOccupancy = occupancy, guestEntries = nGuests,
             vehicleEntries = nVehicles\<rparr>), db))"

subsection \<open>POST /qr-scan\<close>

text \<open>
  The value \<open>JSON.parse(qrData)\<close> yields, as the properties the handler reads from it
  (a value that is not an object has none of them: all are \<open>Undefined\<close>).
  \<open>qr_validFrom\<close> and \<open>qr_validUntil\<close> hold the time values of
  \<open>new Date(parsedData.validFrom)\<close> and \<open>new Date(parsedData.validUntil)\<close>;
  \<open>None\<close> is an Invalid Date, whose time value is \<open>NaN\<close>.
\<close>

record QrPayload =
  qr_type :: JsValue
  qr_guestName :: JsValue
  qr_hostApartment :: JsValue
  qr_vehicleType :: JsValue
  qr_licensePlate :: JsValue
  qr_validFrom :: "int option"
  qr_validUntil :: "int option"
  qr_residentName :: JsValue
  qr_apartment :: JsValue
  qr_residentId :: JsValue
  qr_make :: JsValue
  qr_model :: JsValue
  qr_riderName :: JsValue
  qr_companyName :: JsValue
  qr_providerName :: JsValue
  qr_employeeName :: JsValue
  qr_department :: JsValue

text \<open>
  \<open>req.body.qrData\<close>: falsy (missing, empty); a value whose string conversion is not
  JSON; the JSON text \<open>null\<close>; any other JSON text.
\<close>

datatype QrBody = NoQrData | InvalidJson | JsonNull | QrObject QrPayload

text \<open>\<open>now < validFrom || now > validUntil\<close>; a comparison with \<open>NaN\<close> is false.\<close>

definition outsideWindow :: "int \<Rightarrow> QrPayload \<Rightarrow> bool" where
  "outsideWindow now p =
     ((case qr_validFrom p of None \<Rightarrow> False | Some f \<Rightarrow> now < f) \<or>
      (case qr_validUntil p of None \<Rightarrow> False | Some u \<Rightarrow> u < now))"

text \<open>\<open>!last || last.type === "EXIT"\<close>\<close>

definition isEntry :: "GateEntry option \<Rightarrow> bool" where
  "isEntry lastEntry = (case lastEntry of None \<Rightarrow> True | Some l \<Rightarrow> ge_type l = EXIT)"

definition toggled :: "GateEntry option \<Rightarrow> EntryType" where
  "toggled lastEntry = (if isEntry lastEntry then ENTRY else EXIT)"

definition baseEntryData :: EntryData where
  "baseEntryData = \<lparr>d_type = None, d_person = Undefined, d_apartment = Undefined,
     d_entryType = Undefined, d_vehicle = Undefined, d_gate = Str ''Main Gate'',
     d_method = Str ''QR Code'', d_residentId = Undefined\<rparr>"

definition vehicleDescription :: "QrPayload \<Rightarrow> string" where
  "vehicleDescription p =
     jsString (qr_make p) @ '' '' @ jsString (qr_model p) @ '' ('' @ jsString (qr_licensePlate p) @ '')''"

text \<open>
  Each case of the \<open>switch\<close>: the query for the last entry, and the \<open>entryData\<close>
  built from its result.
\<close>

definition guestEntryData :: "database \<Rightarrow> QrPayload \<Rightarrow> JsError + EntryData" where
  "guestEntryData db p =
     andThen (findLastEntry db (qr_guestName p) (qr_hostApartment p) Undefined ''Guest'') (\<lambda>lastEntry.
     andThen (findHostResident db (qr_hostApartment p)) (\<lambda>hostResident.
       Inr (baseEntryData\<lparr>
              d_type := Some (toggled lastEntry),
              d_person := qr_guestName p,
              d_apartment := qr_hostApartment p,
              d_entryType := Str ''Guest'',
              d_vehicle := (if truthy (qr_licensePlate p)
                            then Str (jsString (qr_vehicleType p) @ '' ('' @ jsString (qr_licensePlate p) @ '')'')
                            else orElse (qr_vehicleType p) ''None''),
              d_residentId := (case hostResident of
                                 None \<Rightarrow> Undefined | Some host \<Rightarrow> Str (r_id host))\<rparr>)))"

definition residentEntryData :: "database \<Rightarrow> QrPayload \<Rightarrow> JsError + EntryData" where
  "residentEntryData db p =
     andThen (findLastEntry db (qr_residentName p) (qr_apartment p) Undefined ''Resident'') (\<lambda>lastEntry.
       Inr (baseEntryData\<lparr>
              d_type := Some (toggled lastEntry),
              d_person := qr_residentName p,
              d_apartment := qr_apartment p,
              d_entryType := Str ''Resident'',
              d_vehicle := Str ''None'',
              d_residentId := qr_residentId p\<rparr>))"

definition vehicleEntryData :: "database \<Rightarrow> QrPayload \<Rightarrow> JsError + EntryData" where
  "vehicleEntryData db p =
     andThen (findLastEntry db (qr_residentName p) (qr_apartment p) (Str (vehicleDescription p))
                ''Resident Vehicle'') (\<lambda>lastEntry.
       Inr (baseEntryData\<lparr>
              d_type := Some (toggled lastEntry),
              d_person := qr_residentName p,
              d_apartment := qr_apartment p,
              d_entryType := Str ''Resident Vehicle'',
              d_vehicle := Str (vehicleDescription p),
              d_residentId := qr_residentId p\<rparr>))"

definition deliveryEntryData :: "database \<Rightarrow> QrPayload \<Rightarrow> JsError + EntryData" where
  "deliveryEntryData db p =
     andThen (findLastEntry db (qr_riderName p) (qr_apartment p) Undefined ''Delivery'') (\<lambda>lastEntry.
       Inr (baseEntryData\<lparr>
              d_type := Some (toggled lastEntry),
              d_person := qr_riderName p,
              d_apartment := qr_apartment p,
              d_entryType := Str ''Delivery'',
              d_vehicle := orElse (qr_companyName p) ''Delivery Vehicle'',
              d_residentId := qr_residentId p\<rparr>))"

definition providerEntryData :: "database \<Rightarrow> QrPayload \<Rightarrow> JsError + EntryData" where
  "providerEntryData db p =
     andThen (findLastEntry db (qr_providerName p) Undefined Undefined ''Service Provider'') (\<lambda>lastEntry.
       Inr (baseEntryData\<lparr>
              d_type := Some (toggled lastEntry),
              d_person := qr_providerName p,
              d_apartment := Str ''Service Provider'',
              d_entryType := Str ''Service Provider'',
              d_vehicle := Str ''None''\<rparr>))"

definition employeeEntryData :: "database \<Rightarrow> QrPayload \<Rightarrow> JsError + EntryData" where
  "employeeEntryData db p =
     andThen (findLastEntry db (qr_employeeName p) Undefined Undefined ''Employee'') (\<lambda>lastEntry.
       Inr (baseEntryData\<lparr>
              d_type := Some (toggled lastEntry),
              d_person := qr_employeeName p,
              d_apartment := qr_department p,
              d_entryType := Str ''Employee'',
              d_vehicle := Str ''None''\<rparr>))"

text \<open>\<open>entryData.type.toLowerCase()\<close>\<close>

fun typeLower :: "EntryType \<Rightarrow> string" where
  "typeLower ENTRY = ''entry''"
| "typeLower EXIT = ''exit''"

text \<open>\<open>prisma.gateEntry.create\<close> and the 201 response that follows the \<open>switch\<close>.\<close>

definition recordScan :: "database \<Rightarrow> int \<Rightarrow> string \<Rightarrow> EntryData \<Rightarrow> JsError + response \<times> database" where
  "recordScan db now newId d =
     (case createGateEntry now newId d of
        Inl err \<Rightarrow> Inl err
      | Inr e \<Rightarrow>
          Inr (okJson 201 (Some (typeLower (ge_type e) @ '' recorded successfully''))
                 (ScanPayload e (ge_type e) (ge_person e) (ge_apartment e)),
               addGateEntry db e))"

text \<open>
  The body of the \<open>try\<close> block of the handler; \<open>switch (type)\<close> compares with
  \<open>===\<close>.
\<close>

definition qrScanBody :: "database \<Rightarrow> int \<Rightarrow> string \<Rightarrow> QrBody \<Rightarrow> JsError + response \<times> database" where
  "qrScanBody db now newId b =
     (case b of
        NoQrData \<Rightarrow> Inr (errorJson 400 ''Missing QR data'' ''QR code data is required'', db)
      | InvalidJson \<Rightarrow> Inr (errorJson 400 ''Invalid QR code'' ''QR code data is not valid JSON'', db)
      | JsonNull \<Rightarrow> Inl (typeError ''Cannot destructure property type of null'')
      | QrObject p \<Rightarrow>
          (if qr_type p = Str ''guest_entry'' then
             (if outsideWindow now p
              then Inr (errorJson 400 ''QR Code expired'' ''Guest QR code is not valid at this time'', db)
              else andThen (guestEntryData db p) (recordScan db now newId))
           else if qr_type p = Str ''resident_entry'' then
             andThen (residentEntryData db p) (recordScan db now newId)
           else if qr_type p = Str ''vehicle_entry'' then
             andThen (vehicleEntryData db p) (recordScan db now newId)
           else if qr_type p = Str ''delivery_entry'' then
             andThen (deliveryEntryData db p) (recordScan db now newId)
           else if qr_type p = Str ''service_provider_entry'' then
             andThen (providerEntryData db p) (recordScan db now newId)
           else if qr_type p = Str ''employee_entry'' then
             andThen (employeeEntryData db p) (recordScan db now newId)
           else Inr (errorJson 400 ''Invalid QR code type''
                       (''Unknown QR code type: '' @ jsString (qr_type p)), db)))"

definition qrScan :: "database \<Rightarrow> int \<Rightarrow> string \<Rightarrow> QrBody \<Rightarrow> response \<times> database" where
  "qrScan db now newId b =
     tryCatch (qrScanBody db now newId b)
       (\<lambda>err. (errorJson 500 ''Failed to process QR code'' ''Internal server error'', db))"

subsection \<open>POST / (manual gate entry)\<close>

record ManualBody =
  mb_type :: JsValue
  mb_person :: JsValue
  mb_apartment :: JsValue
  mb_entryType :: JsValue
  mb_vehicle :: JsValue
  mb_gate :: JsValue
  mb_method :: JsValue
  mb_residentId :: JsValue

text \<open>
  The schemas of Zod: \<open>z.enum(["ENTRY", "EXIT"])\<close>, \<open>z.string().min(n)\<close>,
  \<open>z.string()\<close>, \<open>z.number()\<close> (which takes \<open>Infinity\<close>) and
  \<open>z.number().min(n)\<close>, and \<open>.optional()\<close>.
\<close>

definition parseEntryType :: "JsValue \<Rightarrow> EntryType option" where
  "parseEntryType s =
     (if s = Str ''ENTRY'' then Some ENTRY else if s = Str ''EXIT'' then Some EXIT else None)"

fun minLength :: "nat \<Rightarrow> JsValue \<Rightarrow> bool" where
  "minLength n (Str s) = (n \<le> length s)"
| "minLength n v = False"

fun isNumber :: "JsValue \<Rightarrow> bool" where
  "isNumber (Number q s) = True"
| "isNumber (Infinity pos) = True"
| "isNumber v = False"

fun numberMin :: "rat \<Rightarrow> JsValue \<Rightarrow> bool" where
  "numberMin n (Number q s) = (n \<le> q)"
| "numberMin n (Infinity pos) = pos"
| "numberMin n v = False"

definition optional :: "(JsValue \<Rightarrow> bool) \<Rightarrow> JsValue \<Rightarrow> bool" where
  "optional schema v = (v = Undefined \<or> schema v)"

definition GateEntrySchema_parse :: "ManualBody \<Rightarrow> JsError + ManualBody" where
  "GateEntrySchema_parse b =
     (if parseEntryType (mb_type b) = None then Inl (zodError ''Invalid enum value'')
      else if \<not> minLength 1 (mb_person b) then Inl (zodError ''Person name is required'')
      else if \<not> minLength 1 (mb_apartment b) then Inl (zodError ''Apartment is required'')
      else if \<not> minLength 1 (mb_entryType b) then Inl (zodError ''Entry type is required'')
      else if \<not> optional isStr (mb_vehicle b) \<or> \<not> optional isStr (mb_gate b) \<or>
              \<not> optional isStr (mb_method b) then Inl (zodError ''Expected string'')
      else if \<not> optional isNumber (mb_residentId b) then Inl (zodError ''Expected number'')
      else Inr b)"

text \<open>
  \<open>prisma.gateEntry.create({ data: validatedData })\<close>. The schema validates
  \<open>residentId\<close> as a number where the column is an ObjectId string: Prisma refuses the
  number.
\<close>

definition createManualBody :: "database \<Rightarrow> int \<Rightarrow> string \<Rightarrow> ManualBody \<Rightarrow> JsError + response \<times> database" where
  "createManualBody db now newId b =
     andThen (GateEntrySchema_parse b) (\<lambda>v.
     andThen (createGateEntry now newId
                \<lparr>d_type = parseEntryType (mb_type v), d_person = mb_person v,
                 d_apartment = mb_apartment v, d_entryType = mb_entryType v,
                 d_vehicle = mb_vehicle v, d_gate = mb_gate v, d_method = mb_method v,
                 d_residentId = mb_residentId v\<rparr>) (\<lambda>e.
       Inr (okJson 201 (Some ''Gate entry created successfully'') (EntryPayload e),
            addGateEntry db e)))"

definition createManual :: "database \<Rightarrow> int \<Rightarrow> string \<Rightarrow> ManualBody \<Rightarrow> response \<times> database" where
  "createManual db now newId b =
     tryCatch (createManualBody db now newId b)
       (\<lambda>err. (errorJson 400 ''Failed to create gate entry'' (errorMessage err), db))"

subsection \<open>DELETE /:id\<close>

definition findUniqueGateEntry :: "database \<Rightarrow> string \<Rightarrow> JsError + GateEntry option" where
  "findUniqueGateEntry db i = findUniqueById ge_id (gateEntries db) i"

definition deleteEntryBody :: "database \<Rightarrow> string \<Rightarrow> JsError + response \<times> database" where
  "deleteEntryBody db i =
     (case findUniqueGateEntry db i of
        Inl err \<Rightarrow> Inl err
      | Inr None \<Rightarrow> Inr (errorJson 404 ''Gate entry not found'' ''Gate entry does not exist'', db)
      | Inr (Some e) \<Rightarrow>
          Inr (okJson 200 (Some ''Gate entry deleted successfully'') NoPayload,
               db\<lparr>gateEntries := filter (\<lambda>x. ge_id x \<noteq> i) (gateEntries db)\<rparr>))"

definition deleteEntry :: "database \<Rightarrow> string \<Rightarrow> response \<times> database" where
  "deleteEntry db i =
     tryCatch (deleteEntryBody db i)
       (\<lambda>err. (errorJson 500 ''Failed to delete gate entry'' ''Internal server error'', db))"

section \<open>Authentication middleware (lib/auth.ts, lib/auth.middleware.ts)\<close>

text \<open>The environment variables the server reads; \<open>JWT_EXPIRES_IN\<close> in seconds.\<close>

record config =
  JWT_SECRET :: string
  JWT_EXPIRES_IN :: int
  NODE_ENV :: "string option"
  RATE_LIMIT_WINDOW_MS :: int
  RATE_LIMIT_MAX_REQUESTS :: nat

text \<open>
  \<open>jwt.sign\<close> and \<open>jwt.verify\<close> with \<open>JWT_SECRET\<close>: a string that is not a token
  or a token signed with another secret is a \<open>JsonWebTokenError\<close>; a token is expired
  from the second \<open>exp\<close> on.
\<close>

definition generateToken :: "config \<Rightarrow> int \<Rightarrow> JwtUser \<Rightarrow> HeaderPart" where
  "generateToken cfg now u =
     JwtString \<lparr>jwt_payload = u, jwt_iat = now div 1000,
       jwt_exp = now div 1000 + JWT_EXPIRES_IN cfg, jwt_secret = JWT_SECRET cfg\<rparr>"

definition verifyToken :: "config \<Rightarrow> int \<Rightarrow> HeaderPart \<Rightarrow> JsError + JwtUser" where
  "verifyToken cfg now t =
     (case t of
        Word w \<Rightarrow> Inl (jsonWebTokenError ''jwt malformed'')
      | JwtString j \<Rightarrow>
          (if jwt_secret j \<noteq> JWT_SECRET cfg then Inl (jsonWebTokenError ''invalid signature'')
           else if jwt_exp j \<le> now div 1000 then Inl tokenExpiredError
           else Inr (jwt_payload j)))"

text \<open>
  The \<open>Authorization\<close> header: absent, or its value split at spaces.
  \<open>authHeader?.split(" ")[1]\<close> is the second part, \<open>undefined\<close> when there is none.
\<close>

type_synonym header = "HeaderPart list option"

definition headerToken :: "header \<Rightarrow> HeaderPart option" where
  "headerToken h =
     (case h of
        None \<Rightarrow> None
      | Some parts \<Rightarrow> (if 1 < length parts then Some (parts ! 1) else None))"

text \<open>\<open>!token\<close>: no second part, or an empty one.\<close>

definition noToken :: "HeaderPart option \<Rightarrow> bool" where
  "noToken t = (t = None \<or> t = Some (Word []))"

text \<open>
  A middleware either sends a response (\<open>Inl\<close>) or calls \<open>next()\<close>, with
  \<open>req.user\<close> set (\<open>Inr\<close>).
\<close>

definition authenticateTokenBody :: "config \<Rightarrow> int \<Rightarrow> header \<Rightarrow> JsError + (response + JwtUser)" where
  "authenticateTokenBody cfg now h =
     (case headerToken h of
        None \<Rightarrow> Inr (Inl (errorJson 401 ''Access denied'' ''No token provided''))
      | Some t \<Rightarrow>
          (if noToken (Some t) then Inr (Inl (errorJson 401 ''Access denied'' ''No token provided''))
           else (case verifyToken cfg now t of
                   Inl err \<Rightarrow> Inl err
                 | Inr decoded \<Rightarrow> Inr (Inr decoded))))"

definition authenticateToken :: "config \<Rightarrow> int \<Rightarrow> header \<Rightarrow> response + JwtUser" where
  "authenticateToken cfg now h =
     tryCatch (authenticateTokenBody cfg now h)
       (\<lambda>err. Inl (errorJson 403 ''Invalid token'' ''Token is not valid or has expired''))"

text \<open>\<open>new ObjectId(id)\<close> throws on a string that is not an ObjectId.\<close>

definition newObjectId :: "string \<Rightarrow> JsError + string" where
  "newObjectId i = (if isObjectId i then Inr i else Inl (bsonError ''input must be a 24 character hex string''))"

text \<open>
  \<open>verifyUserExists\<close>: \<open>None\<close> is \<open>next()\<close>. The \<open>switch\<close> on the decoded type
  looks the account up; the resident, service provider and employee cases test the
  status of the row they found, the admin case selects \<open>status\<close> and goes on.
\<close>

definition accountInactive :: "string \<Rightarrow> response" where
  "accountInactive m = errorJson 403 ''Account inactive'' m"

definition userNotFound :: response where
  "userNotFound = errorJson 404 ''User not found'' ''User account does not exist''"

definition verifyUserExistsBody :: "database \<Rightarrow> JwtUser option \<Rightarrow> JsError + response option" where
  "verifyUserExistsBody db user =
     (case user of
        None \<Rightarrow> Inr (Some (errorJson 401 ''Unauthorized'' ''User not authenticated''))
      | Some u \<Rightarrow>
          (if u_type u = ''admin'' then
             (case newObjectId (u_id u) of
                Inl err \<Rightarrow> Inl err
              | Inr oid \<Rightarrow>
                  (case findUniqueById a_id (admins db) oid of
                     Inl err \<Rightarrow> Inl err
                   | Inr None \<Rightarrow> Inr (Some userNotFound)
                   | Inr (Some a) \<Rightarrow> Inr None))
           else if u_type u = ''resident'' then
             (case findUniqueById r_id (residents db) (u_id u) of
                Inl err \<Rightarrow> Inl err
              | Inr None \<Rightarrow> Inr (Some userNotFound)
              | Inr (Some r) \<Rightarrow>
                  (if r_status r \<noteq> ''Active'' \<or> r_approvalStatus r \<noteq> APPROVED
                   then Inr (Some (accountInactive ''Your resident account is not active or approved''))
                   else Inr None))
           else if u_type u = ''serviceProvider'' then
             (case findUniqueById sp_id (serviceProviders db) (u_id u) of
                Inl err \<Rightarrow> Inl err
              | Inr None \<Rightarrow> Inr (Some userNotFound)
              | Inr (Some p) \<Rightarrow>
                  (if sp_status p \<noteq> SP_ACTIVE
                   then Inr (Some (accountInactive ''Your service provider account is not active''))
                   else Inr None))
           else if u_type u = ''employee'' then
             (case findUniqueById emp_id (employees db) (u_id u) of
                Inl err \<Rightarrow> Inl err
              | Inr None \<Rightarrow> Inr (Some userNotFound)
              | Inr (Some e) \<Rightarrow>
                  (if emp_status e \<noteq> EMP_ACTIVE
                   then Inr (Some (accountInactive ''Your employee account is not active''))
                   else Inr None))
           else Inr (Some (errorJson 403 ''Invalid user type'' ''Unrecognized user type''))))"

definition verifyUserExists :: "database \<Rightarrow> JwtUser option \<Rightarrow> response option" where
  "verifyUserExists db user =
     tryCatch (verifyUserExistsBody db user)
       (\<lambda>err. Some (errorJson 500 ''Internal server error'' ''Failed to verify user account''))"

definition authorizeRoles :: "string list \<Rightarrow> JwtUser option \<Rightarrow> response option" where
  "authorizeRoles allowedRoles user =
     (case user of
        None \<Rightarrow> Some (errorJson 401 ''Unauthorized'' ''User not authenticated'')
      | Some u \<Rightarrow>
          (if u_type u \<notin> set allowedRoles
           then Some (errorJson 403 ''Forbidden''
                        ''You don't have permission to access this resource'')
           else None))"

definition requireAdmin :: "JwtUser option \<Rightarrow> response option" where
  "requireAdmin = authorizeRoles [''admin'']"

text \<open>\<open>[authenticateToken, verifyUserExists]\<close>, and the chain with a role check after it.\<close>

definition authenticateAndVerify :: "config \<Rightarrow> database \<Rightarrow> int \<Rightarrow> header \<Rightarrow> response + JwtUser" where
  "authenticateAndVerify cfg db now h =
     (case authenticateToken cfg now h of
        Inl r \<Rightarrow> Inl r
      | Inr u \<Rightarrow> (case verifyUserExists db (Some u) of Some r \<Rightarrow> Inl r | None \<Rightarrow> Inr u))"

definition authWithRole :: "string list \<Rightarrow> config \<Rightarrow> database \<Rightarrow> int \<Rightarrow> header \<Rightarrow> response + JwtUser" where
  "authWithRole roles cfg db now h =
     (case authenticateAndVerify cfg db now h of
        Inl r \<Rightarrow> Inl r
      | Inr u \<Rightarrow> (case authorizeRoles roles (Some u) of Some r \<Rightarrow> Inl r | None \<Rightarrow> Inr u))"

section \<open>Authentication routes (routes/auth.ts)\<close>

subsection \<open>POST /resident/register\<close>

text \<open>
  The library functions the handler calls whose code is outside the repository: the
  e-mail test of \<open>z.string().email()\<close>, and \<open>bcrypt.hash\<close> as a function of the
  salt it draws and the password.
\<close>

record Libs =
  isEmail :: "string \<Rightarrow> bool"
  hashPassword :: "string \<Rightarrow> string \<Rightarrow> string"

text \<open>
  The request body. \<open>rb_optionalStrings\<close> holds the values of the properties
  \<open>cnicNumber\<close>, \<open>passportNumber\<close>, \<open>driverLicenseNumber\<close>,
  \<open>emergencyContact\<close>, \<open>emergencyContactPhone\<close>, \<open>occupation\<close>,
  \<open>workAddress\<close>, \<open>previousAddress\<close>, \<open>reference1Name\<close>,
  \<open>reference1Phone\<close>, \<open>reference2Name\<close>, \<open>reference2Phone\<close>,
  \<open>additionalNotes\<close> and \<open>profilePhoto\<close>, which the schema validates as
  \<open>z.string().optional()\<close> and the handler copies to columns that \<open>Resident\<close>
  above leaves out; the schema drops any other property.
\<close>

record RegistrationBody =
  rb_name :: JsValue
  rb_apartment :: JsValue
  rb_phone :: JsValue
  rb_email :: JsValue
  rb_familyMembers :: JsValue
  rb_username :: JsValue
  rb_password :: JsValue
  rb_idDocumentType :: JsValue
  rb_ownershipType :: JsValue
  rb_monthlyIncome :: JsValue
  rb_optionalStrings :: "JsValue list"

definition oneOf :: "string list \<Rightarrow> JsValue \<Rightarrow> bool" where
  "oneOf xs v = (v \<in> Str ` set xs)"

fun isEmailString :: "Libs \<Rightarrow> JsValue \<Rightarrow> bool" where
  "isEmailString libs (Str s) = isEmail libs s"
| "isEmailString libs v = False"

definition ResidentRegistrationSchema_ok :: "Libs \<Rightarrow> RegistrationBody \<Rightarrow> bool" where
  "ResidentRegistrationSchema_ok libs b =
     (minLength 2 (rb_name b) \<and> minLength 1 (rb_apartment b) \<and> minLength 10 (rb_phone b) \<and>
      isEmailString libs (rb_email b) \<and>
      numberMin 1 (rb_familyMembers b) \<and>
      optional (minLength 3) (rb_username b) \<and> optional (minLength 6) (rb_password b) \<and>
      oneOf [''CNIC'', ''PASSPORT'', ''DRIVER_LICENSE''] (rb_idDocumentType b) \<and>
      oneOf [''OWNER'', ''TENANT''] (rb_ownershipType b) \<and>
      optional isNumber (rb_monthlyIncome b) \<and>
      list_all (optional isStr) (rb_optionalStrings b))"

definition ResidentRegistrationSchema_parse :: "Libs \<Rightarrow> RegistrationBody \<Rightarrow> JsError + RegistrationBody" where
  "ResidentRegistrationSchema_parse libs b =
     (if ResidentRegistrationSchema_ok libs b then Inr b else Inl (zodError ''Invalid input''))"

text \<open>
  \<open>findFirst({ where: { OR: [{ email }, { apartment }] } })\<close> on validated data, whose
  e-mail and apartment are strings.
\<close>

definition findExistingResident :: "database \<Rightarrow> RegistrationBody \<Rightarrow> Resident option" where
  "findExistingResident db v =
     find (\<lambda>r. Str (r_email r) = rb_email v \<or> Str (r_apartment r) = rb_apartment v) (residents db)"

text \<open>
  The unique indexes of the model: a row whose e-mail, apartment or username is that of a
  stored row is refused with \<open>P2002\<close>. The index on \<open>username\<close> holds a row without
  a username under the value \<open>null\<close>, so it admits one such row only.
\<close>

definition violatesUnique :: "database \<Rightarrow> Resident \<Rightarrow> bool" where
  "violatesUnique db n =
     list_ex (\<lambda>r. r_email r = r_email n \<or> r_apartment r = r_apartment n \<or>
                  r_username r = r_username n) (residents db)"

definition createResident :: "database \<Rightarrow> Resident \<Rightarrow> JsError + Resident" where
  "createResident db n =
     (if violatesUnique db n then Inl (prismaKnownError ''P2002'' ''Unique constraint failed'')
      else Inr n)"

definition addResident :: "database \<Rightarrow> Resident \<Rightarrow> database" where
  "addResident db r = db\<lparr>residents := residents db @ [r]\<rparr>"

text \<open>A validated optional string.\<close>

fun optionalString :: "JsValue \<Rightarrow> string option" where
  "optionalString (Str s) = Some s"
| "optionalString v = None"

text \<open>
  The handler. \<open>prisma.resident.create\<close> checks the values against the column types
  (\<open>familyMembers\<close> is an Int column) and then writes the row, where the unique indexes
  apply; a \<open>monthlyIncome\<close> of \<open>Infinity\<close> is stored as \<open>null\<close>.
\<close>

definition residentRegisterBody :: "Libs \<Rightarrow> database \<Rightarrow> string \<Rightarrow> string \<Rightarrow> RegistrationBody \<Rightarrow> JsError + response \<times> database" where
  "residentRegisterBody libs db newId salt b =
     andThen (ResidentRegistrationSchema_parse libs b) (\<lambda>v.
       (case findExistingResident db v of
          Some existing \<Rightarrow>
            Inr (errorJson 400 ''Resident already exists''
                   (if Str (r_email existing) = rb_email v then ''Email is already registered''
                    else ''Apartment is already registered''), db)
        | None \<Rightarrow>
            andThen (intColumn (rb_familyMembers v)) (\<lambda>familyMembers.
            andThen (createResident db
                       \<lparr>r_id = newId, r_name = jsString (rb_name v),
                        r_apartment = jsString (rb_apartment v), r_email = jsString (rb_email v),
                        r_phone = jsString (rb_phone v),
                        r_familyMembers = familyMembers,
                        r_username = optionalString (rb_username v),
                        r_password = (if truthy (rb_password v)
                                      then Some (hashPassword libs salt (jsString (rb_password v)))
                                      else None),
                        r_status = ''Pending'', r_approvalStatus = PENDING\<rparr>) (\<lambda>r.
              Inr (okJson 201 (Some ''Registration successful'')
                     (RegisteredPayload (r_id r) (r_name r) (r_email r) (r_apartment r)
                        (r_status r) (r_approvalStatus r)),
                   addResident db r)))))"

definition residentRegister :: "Libs \<Rightarrow> database \<Rightarrow> string \<Rightarrow> string \<Rightarrow> RegistrationBody \<Rightarrow> response \<times> database" where
  "residentRegister libs db newId salt b =
     tryCatch (residentRegisterBody libs db newId salt b)
       (\<lambda>err. (errorJson 400 ''Registration failed'' (errorMessage err), db))"

subsection \<open>POST /refresh and POST /logout\<close>

definition refresh :: "config \<Rightarrow> database \<Rightarrow> int \<Rightarrow> header \<Rightarrow> response \<times> database" where
  "refresh cfg db now h =
     (case authenticateToken cfg now h of
        Inl r \<Rightarrow> (r, db)
      | Inr u \<Rightarrow>
          (okJson 200 (Some ''Token refreshed successfully'')
             (TokenPayload (generateToken cfg now
                \<lparr>u_id = u_id u, u_type = u_type u, u_email = u_email u\<rparr>)), db))"

definition logout :: "config \<Rightarrow> database \<Rightarrow> int \<Rightarrow> header \<Rightarrow> response \<times> database" where
  "logout cfg db now h =
     (case authenticateToken cfg now h of
        Inl r \<Rightarrow> (r, db)
      | Inr u \<Rightarrow> (okJson 200 (Some ''Logout successful'') NoPayload, db))"

section \<open>Residents (routes/residents.ts)\<close>

subsection \<open>PATCH /:id/approval\<close>

definition parseApproval :: "string option \<Rightarrow> ApprovalStatus option" where
  "parseApproval s =
     (if s = Some ''APPROVED'' then Some APPROVED else if s = Some ''REJECTED'' then Some REJECTED
      else None)"

text \<open>\<open>prisma.resident.update({ where: { id } })\<close>: \<open>P2025\<close> when no row has the id.\<close>

definition updateResident :: "database \<Rightarrow> string \<Rightarrow> (Resident \<Rightarrow> Resident) \<Rightarrow> JsError + Resident \<times> database" where
  "updateResident db i f =
     (case findUniqueById r_id (residents db) i of
        Inl err \<Rightarrow> Inl err
      | Inr None \<Rightarrow> Inl (prismaKnownError ''P2025'' ''Record to update not found'')
      | Inr (Some r) \<Rightarrow>
          Inr (f r, db\<lparr>residents := map (\<lambda>x. if r_id x = i then f x else x) (residents db)\<rparr>))"

definition approveResidentBody :: "database \<Rightarrow> string \<Rightarrow> string option \<Rightarrow> JsError + response \<times> database" where
  "approveResidentBody db i approvalStatus =
     (case parseApproval approvalStatus of
        None \<Rightarrow> Inr (errorJson 400 ''Invalid approval status''
                      ''Approval status must be APPROVED or REJECTED'', db)
      | Some a \<Rightarrow>
          (case updateResident db i
                  (\<lambda>r. r\<lparr>r_approvalStatus := a,
                          r_status := (if a = APPROVED then ''Active'' else ''Rejected'')\<rparr>) of
             Inl err \<Rightarrow> Inl err
           | Inr (r, db') \<Rightarrow>
               Inr (okJson 200 (Some (''Resident '' @ (if a = APPROVED then ''approved'' else ''rejected'')
                                       @ '' successfully'')) (ResidentPayload r), db')))"

definition approveResident :: "database \<Rightarrow> string \<Rightarrow> string option \<Rightarrow> response \<times> database" where
  "approveResident db i approvalStatus =
     tryCatch (approveResidentBody db i approvalStatus)
       (\<lambda>err. (errorJson 500 ''Failed to update approval status'' ''Internal server error'', db))"

section \<open>Maintenance bills (routes/dashboard.ts, routes/maintenanceBills.ts)\<close>

subsection \<open>GET /admin/stats: the maintenance bill counts\<close>

definition countBills :: "database \<Rightarrow> (MaintenanceBill \<Rightarrow> bool) \<Rightarrow> nat" where
  "countBills db p = length (filter p (maintenanceBills db))"

definition billStatistics :: "database \<Rightarrow> int \<Rightarrow> BillStatistics" where
  "billStatistics db now =
     \<lparr>totalMaintenanceBills = countBills db (\<lambda>b. True),
      pendingBills = countBills db (\<lambda>b. b_status b = BILL_PENDING),
      paidBills = countBills db (\<lambda>b. b_status b = BILL_PAID),
      overdueBills = countBills db (\<lambda>b. b_status b = BILL_PENDING \<and> b_dueDate b < now)\<rparr>"

definition adminStats :: "database \<Rightarrow> int \<Rightarrow> response \<times> database" where
  "adminStats db now = (okJson 200 None (BillStatsPayload (billStatistics db now)), db)"

subsection \<open>PATCH /:id/status\<close>

text \<open>
  The request body. \<open>bu_paidDate\<close> is absent or empty (\<open>None\<close>), or holds the time
  value of \<open>new Date(validatedData.paidDate)\<close>, \<open>Some None\<close> for an Invalid Date.
\<close>

record BillUpdateBody =
  bu_status :: "string option"
  bu_paidDate :: "int option option"

definition parseBillStatus :: "string \<Rightarrow> BillStatus option" where
  "parseBillStatus s =
     (if s = ''PENDING'' then Some BILL_PENDING else if s = ''PAID'' then Some BILL_PAID
      else if s = ''OVERDUE'' then Some BILL_OVERDUE else None)"

definition BillUpdateSchema_parse :: "BillUpdateBody \<Rightarrow> JsError + BillStatus option \<times> int option option" where
  "BillUpdateSchema_parse b =
     (case bu_status b of
        None \<Rightarrow> Inr (None, bu_paidDate b)
      | Some s \<Rightarrow>
          (case parseBillStatus s of
             None \<Rightarrow> Inl (zodError ''Invalid enum value'')
           | Some st \<Rightarrow> Inr (Some st, bu_paidDate b)))"

definition updateBillStatusBody :: "database \<Rightarrow> int \<Rightarrow> string \<Rightarrow> BillUpdateBody \<Rightarrow> JsError + response \<times> database" where
  "updateBillStatusBody db now billId b =
     (case BillUpdateSchema_parse b of
        Inl err \<Rightarrow> Inl err
      | Inr (st, pd) \<Rightarrow>
          (case findUniqueById b_id (maintenanceBills db) billId of
             Inl err \<Rightarrow> Inl err
           | Inr None \<Rightarrow> Inr (errorJson 404 ''Bill not found'' ''Maintenance bill does not exist'', db)
           | Inr (Some bill) \<Rightarrow>
               (if pd = Some None then Inl (prismaValidationError ''Invalid Date'')
                else
                  (let b1 = (case st of
                               None \<Rightarrow> bill
                             | Some x \<Rightarrow> (if x = BILL_PAID
                                          then bill\<lparr>b_status := x, b_paidDate := Some now\<rparr>
                                          else bill\<lparr>b_status := x\<rparr>));
                       b2 = (case pd of Some (Some t) \<Rightarrow> b1\<lparr>b_paidDate := Some t\<rparr> | _ \<Rightarrow> b1)
                   in Inr (okJson 200 (Some ''Bill status updated successfully'') (BillPayload b2),
                           db\<lparr>maintenanceBills :=
                                 map (\<lambda>x. if b_id x = billId then b2 else x) (maintenanceBills db)\<rparr>)))))"

definition updateBillStatus :: "database \<Rightarrow> int \<Rightarrow> string \<Rightarrow> BillUpdateBody \<Rightarrow> response \<times> database" where
  "updateBillStatus db now billId b =
     tryCatch (updateBillStatusBody db now billId b)
       (\<lambda>err. (errorJson 400 ''Failed to update bill status'' (errorMessage err), db))"

section \<open>The application (server.ts)\<close>

subsection \<open>404 handler and global error handler\<close>

definition notFound :: "string \<Rightarrow> string \<Rightarrow> response" where
  "notFound method url = errorJson 404 ''Route not found'' (''Cannot '' @ method @ '' '' @ url)"

text \<open>\<open>err.statusCode || err.status || 500\<close>: an absent code and the code 0 are falsy.\<close>

definition codeOr :: "nat option \<Rightarrow> nat \<Rightarrow> nat" where
  "codeOr c d = (case c of None \<Rightarrow> d | Some n \<Rightarrow> (if n = 0 then d else n))"

definition defaultStatus :: "JsError \<Rightarrow> nat" where
  "defaultStatus err = codeOr (e_statusCode err) (codeOr (e_status err) 500)"

definition errorHandler :: "config \<Rightarrow> JsError \<Rightarrow> response" where
  "errorHandler cfg err =
     (if e_code err = Some ''P2002'' then
        errorJson 400 ''Duplicate entry'' ''A record with this data already exists.''
      else if e_code err = Some ''P2025'' then
        errorJson 404 ''Record not found'' ''The requested record does not exist.''
      else if e_name err = Some ''ZodError'' then
        errorJson 400 ''Validation error'' ''Invalid input data''
      else if e_name err = Some ''JsonWebTokenError'' then
        errorJson 401 ''Invalid token'' ''Authentication token is invalid.''
      else if e_name err = Some ''TokenExpiredError'' then
        errorJson 401 ''Token expired'' ''Authentication token has expired.''
      else
        errorJson (defaultStatus err)
          (if NODE_ENV cfg = Some ''production'' then ''Internal server error''
           else textOr (e_name err) ''Error'')
          (if NODE_ENV cfg = Some ''production'' then ''Something went wrong''
           else textOr (e_message err) ''Internal server error''))"

subsection \<open>Preflight requests and rate limiting\<close>

text \<open>
  \<open>app.use(cors(corsOptions))\<close> comes before every other middleware that answers. The
  \<open>cors\<close> middleware ends every request whose method is \<open>OPTIONS\<close> itself
  (\<open>preflightContinue\<close> is not set): status \<open>optionsSuccessStatus\<close>, here 200,
  \<open>Content-Length: 0\<close> and no body. Such a request reaches neither the rate limiter
  nor a router.
\<close>

definition preflight :: reply where
  "preflight = EmptyBody 200"

text \<open>
  \<open>app.use(limiter)\<close>: express-rate-limit with its default store, which keeps in the
  memory of the process, for each client address, the number of requests of the current
  window and the time the window ends. A request beyond \<open>max\<close> within the window is
  answered 429 with the configured body, which has an \<open>error\<close> field only.
\<close>

type_synonym hits = "string \<Rightarrow> (nat \<times> int) option"

definition countHit :: "config \<Rightarrow> int \<Rightarrow> string \<Rightarrow> hits \<Rightarrow> nat \<times> int" where
  "countHit cfg now ip h =
     (case h ip of
        None \<Rightarrow> (1, now + RATE_LIMIT_WINDOW_MS cfg)
      | Some (n, resetTime) \<Rightarrow>
          (if now < resetTime then (Suc n, resetTime) else (1, now + RATE_LIMIT_WINDOW_MS cfg)))"

definition tooManyRequests :: response where
  "tooManyRequests =
     \<lparr>status = 429,
      error = Some ''Too many requests from this IP, please try again later.'',
      message = None, body = NoPayload\<rparr>"

subsection \<open>The health check\<close>

text \<open>\<open>app.get("/health", ...)\<close>: no middleware of its own and no \<open>try\<close>.\<close>

definition health :: "config \<Rightarrow> database \<Rightarrow> int \<Rightarrow> response \<times> database" where
  "health cfg db now =
     (okJson 200 (Some ''Residential Management API is running'') (HealthPayload now (NODE_ENV cfg)),
      db)"

subsection \<open>Routing\<close>

text \<open>
  The routes of the model, with what each reads from the request besides the
  \<open>Authorization\<close> header; \<open>NoRoute\<close> is a method and a path that no router
  matches. No router has a handler for \<open>OPTIONS\<close>: a request of that method is a
  \<open>NoRoute ''OPTIONS''\<close>.
\<close>

datatype Route =
    QrScanRoute QrBody
  | CreateManualRoute ManualBody
  | StatsTodayRoute
  | DeleteEntryRoute string
  | RegisterRoute RegistrationBody
  | RefreshRoute
  | LogoutRoute
  | AdminStatsRoute
  | BillStatusRoute string BillUpdateBody
  | HealthRoute
  | NoRoute string string

fun methodOf :: "Route \<Rightarrow> string" where
  "methodOf (QrScanRoute b) = ''POST''"
| "methodOf (CreateManualRoute b) = ''POST''"
| "methodOf StatsTodayRoute = ''GET''"
| "methodOf (DeleteEntryRoute i) = ''DELETE''"
| "methodOf (RegisterRoute b) = ''POST''"
| "methodOf RefreshRoute = ''POST''"
| "methodOf LogoutRoute = ''POST''"
| "methodOf AdminStatsRoute = ''GET''"
| "methodOf (BillStatusRoute i b) = ''PATCH''"
| "methodOf HealthRoute = ''GET''"
| "methodOf (NoRoute method url) = method"

text \<open>
  A request: the client address, the error \<open>express.json()\<close> raises on a body it
  cannot read (if any), the \<open>Authorization\<close> header and the route.
\<close>

record Request =
  req_ip :: string
  req_bodyError :: "JsError option"
  req_authorization :: header
  req_route :: Route

text \<open>
  What a request reads from outside the process and the database: the clock, the offset
  of the local time zone, the identifier generated for a record it creates, and the salt
  drawn for a password it hashes.
\<close>

record Env =
  env_now :: int
  env_tz :: int
  env_newId :: string
  env_salt :: string

text \<open>A route behind \<open>authenticateAndVerify, requireAdmin\<close>.\<close>

definition adminOnly :: "config \<Rightarrow> database \<Rightarrow> int \<Rightarrow> header \<Rightarrow> response \<times> database \<Rightarrow> response \<times> database" where
  "adminOnly cfg db now h handler =
     (case authWithRole [''admin''] cfg db now h of
        Inl r \<Rightarrow> (r, db)
      | Inr u \<Rightarrow> handler)"

text \<open>
  The routers and the 404 handler behind them, for a request that has passed \<open>cors\<close>,
  the rate limiter and the body parser.
\<close>

definition route :: "config \<Rightarrow> Libs \<Rightarrow> database \<Rightarrow> Env \<Rightarrow> Request \<Rightarrow> response \<times> database" where
  "route cfg libs db env req =
     (let now = env_now env; h = req_authorization req in
      case req_route req of
        QrScanRoute b \<Rightarrow> adminOnly cfg db now h (qrScan db now (env_newId env) b)
      | CreateManualRoute b \<Rightarrow> adminOnly cfg db now h (createManual db now (env_newId env) b)
      | StatsTodayRoute \<Rightarrow> adminOnly cfg db now h (statsToday db (env_tz env) now)
      | DeleteEntryRoute i \<Rightarrow> adminOnly cfg db now h (deleteEntry db i)
      | RegisterRoute b \<Rightarrow> residentRegister libs db (env_newId env) (env_salt env) b
      | RefreshRoute \<Rightarrow> refresh cfg db now h
      | LogoutRoute \<Rightarrow> logout cfg db now h
      | AdminStatsRoute \<Rightarrow> adminOnly cfg db now h (adminStats db now)
      | BillStatusRoute i b \<Rightarrow> adminOnly cfg db now h (updateBillStatus db now i b)
      | HealthRoute \<Rightarrow> health cfg db now
      | NoRoute method url \<Rightarrow> (notFound method url, db))"

text \<open>The state of the running server: the database and the store of the rate limiter.\<close>

record Server =
  srv_db :: database
  srv_hits :: hits

text \<open>
  The application, in the order of \<open>server.ts\<close>: \<open>cors\<close>, the rate limiter, the
  body parser (whose error goes to the global error handler), the routers and the 404
  handler.
\<close>

definition serve :: "config \<Rightarrow> Libs \<Rightarrow> Server \<Rightarrow> Env \<Rightarrow> Request \<Rightarrow> reply \<times> Server" where
  "serve cfg libs srv env req =
     (if methodOf (req_route req) = ''OPTIONS'' then (preflight, srv)
      else
        (let hit = countHit cfg (env_now env) (req_ip req) (srv_hits srv);
             hits' = (srv_hits srv)(req_ip req \<mapsto> hit)
         in if RATE_LIMIT_MAX_REQUESTS cfg < fst hit
            then (Json tooManyRequests, srv\<lparr>srv_hits := hits'\<rparr>)
            else (case req_bodyError req of
                    Some err \<Rightarrow> (Json (errorHandler cfg err), srv\<lparr>srv_hits := hits'\<rparr>)
                  | None \<Rightarrow>
                      (let (r, db') = route cfg libs (srv_db srv) env req
                       in (Json r, \<lparr>srv_db = db', srv_hits = hits'\<rparr>)))))"

subsection \<open>The route handlers and their catch blocks\<close>

text \<open>
  Every \<open>router.get\<close>, \<open>router.post\<close>, \<open>router.patch\<close> and
  \<open>router.delete\<close> of the route files, and the \<open>app.get\<close> of \<open>server.ts\<close>:
  the file and the line it starts at, the method and the path within its router, and the
  \<open>catch\<close> of the \<open>try\<close> that is its whole body: the status it sends, the
  \<open>error\<close> text, and the \<open>message\<close>, which is a fixed text or
  \<open>error.message\<close>. \<open>POST /logout\<close> and \<open>GET /health\<close> have no \<open>try\<close>:
  the body of each is one \<open>res.json\<close>.
\<close>

datatype CatchMessage = Fixed string | ErrorMessage

type_synonym catchBlock = "nat \<times> string \<times> CatchMessage"

type_synonym handler = "string \<times> nat \<times> string \<times> string \<times> catchBlock option"






section \<open>Vocabulary of the properties\<close>

subsection \<open>Lookup keys and alternation\<close>















definition duplicate :: "database \<Rightarrow> RegistrationBody \<Rightarrow> bool" where
  "duplicate db b =
     list_ex (\<lambda>r. Str (r_email r) = rb_email b \<or> Str (r_apartment r) = rb_apartment b) (residents db)"

text \<open>
  The username of the body, given or absent, is that of a stored resident; the number
  of family members fits the Int column.
\<close>

definition usernameTaken :: "database \<Rightarrow> RegistrationBody \<Rightarrow> bool" where
  "usernameTaken db b = list_ex (\<lambda>r. r_username r = optionalString (rb_username b)) (residents db)"

fun wholeInt32 :: "JsValue \<Rightarrow> bool" where
  "wholeInt32 (Number q s) = isInt32 q"
| "wholeInt32 v = False"

definition residentUser :: "string \<Rightarrow> string \<Rightarrow> JwtUser" where
  "residentUser i e = \<lparr>u_id = i, u_type = ''resident'', u_email = e\<rparr>"

text \<open>The row a registration writes.\<close>

fun floorOf :: "JsValue \<Rightarrow> int" where
  "floorOf (Number q s) = \<lfloor>q\<rfloor>"
| "floorOf v = 1"

definition newResident :: "Libs \<Rightarrow> string \<Rightarrow> string \<Rightarrow> RegistrationBody \<Rightarrow> Resident" where
  "newResident libs newId salt v =
     \<lparr>r_id = newId, r_name = jsString (rb_name v), r_apartment = jsString (rb_apartment v),
      r_email = jsString (rb_email v), r_phone = jsString (rb_phone v),
      r_familyMembers = floorOf (rb_familyMembers v), r_username = optionalString (rb_username v),
      r_password = (if truthy (rb_password v) then Some (hashPassword libs salt (jsString (rb_password v)))
                    else None),
      r_status = ''Pending'', r_approvalStatus = PENDING\<rparr>"

subsection \<open>The error table of the spec\<close>





text \<open>The rate limiter admits the request.\<close>

definition admitted :: "config \<Rightarrow> Server \<Rightarrow> Env \<Rightarrow> Request \<Rightarrow> bool" where
  "admitted cfg srv env req =
     (fst (countHit cfg (env_now env) (req_ip req) (srv_hits srv)) \<le> RATE_LIMIT_MAX_REQUESTS cfg)"

subsection \<open>Generated values\<close>








section \<open>Concrete inputs\<close>

text \<open>Databases and requests at which the theorems below are evaluated.\<close>

definition exitOnly :: database where
  "exitOnly = emptyDb\<lparr>gateEntries := [\<lparr>ge_id = ''65a000000000000000000001'', ge_type = EXIT,
     ge_person = ''Ali'', ge_apartment = ''A-101'', ge_entryType = ''Guest'', ge_vehicle = ''None'',
     ge_gate = ''Main Gate'', ge_method = ''Manual'', ge_residentId = None, ge_createdAt = 90000000\<rparr>]\<rparr>"













definition libs0 :: Libs where
  "libs0 = \<lparr>isEmail = (\<lambda>s. CHR ''@'' \<in> set s), hashPassword = (\<lambda>salt s. ''$2a$12$'' @ salt @ s)\<rparr>"

definition bobBody :: RegistrationBody where
  "bobBody = \<lparr>rb_name = Str ''Bob Builder'', rb_apartment = Str ''B-205'',
     rb_phone = Str ''+92-300-1234567'', rb_email = Str ''bob@example.com'',
     rb_familyMembers = Number 2 ''2'', rb_username = Str ''bob'', rb_password = Str ''secret1'',
     rb_idDocumentType = Str ''CNIC'', rb_ownershipType = Str ''OWNER'',
     rb_monthlyIncome = Undefined, rb_optionalStrings = replicate 14 Undefined\<rparr>"

definition bobId :: string where
  "bobId = ''65b000000000000000000001''"

definition bobRegistered :: database where
  "bobRegistered = snd (residentRegister libs0 emptyDb bobId ''salt'' bobBody)"

definition otherBobBody :: RegistrationBody where
  "otherBobBody = bobBody\<lparr>rb_apartment := Str ''C-301'', rb_email := Str ''robert@example.com''\<rparr>"

text \<open>Two bodies without a username, and a body with one and a half family members.\<close>

definition annBody :: RegistrationBody where
  "annBody = bobBody\<lparr>rb_name := Str ''Ann Archer'', rb_apartment := Str ''D-401'',
     rb_email := Str ''ann@example.com'', rb_username := Undefined\<rparr>"

definition annRegistered :: database where
  "annRegistered = snd (residentRegister libs0 emptyDb bobId ''salt'' annBody)"

definition benBody :: RegistrationBody where
  "benBody = annBody\<lparr>rb_name := Str ''Ben Baker'', rb_apartment := Str ''E-501'',
     rb_email := Str ''ben@example.com''\<rparr>"

definition halfBody :: RegistrationBody where
  "halfBody = bobBody\<lparr>rb_familyMembers := Number (3 / 2) ''1.5''\<rparr>"

definition cfg0 :: config where
  "cfg0 = \<lparr>JWT_SECRET = ''s3cret'', JWT_EXPIRES_IN = 604800, NODE_ENV = Some ''production'',
     RATE_LIMIT_WINDOW_MS = 900000, RATE_LIMIT_MAX_REQUESTS = 100\<rparr>"

definition dueBill :: MaintenanceBill where
  "dueBill = \<lparr>b_id = ''65c000000000000000000001'', b_status = BILL_PENDING, b_dueDate = 80000000,
     b_paidDate = None\<rparr>"

definition oneBill :: database where
  "oneBill = emptyDb\<lparr>maintenanceBills := [dueBill]\<rparr>"

definition setOverdue :: BillUpdateBody where
  "setOverdue = \<lparr>bu_status = Some ''OVERDUE'', bu_paidDate = None\<rparr>"

definition adminId :: string where
  "adminId = ''65d000000000000000000001''"

definition adminUser :: JwtUser where
  "adminUser = \<lparr>u_id = adminId, u_type = ''admin'', u_email = ''admin@residentialapp.com''\<rparr>"

definition inactiveAdminDb :: database where
  "inactiveAdminDb = emptyDb\<lparr>admins := [\<lparr>a_id = adminId, a_status = False\<rparr>]\<rparr>"

definition adminHeader :: header where
  "adminHeader = Some [Word ''Bearer'', generateToken cfg0 90000000 adminUser]"

definition employeeId :: string where
  "employeeId = ''65e000000000000000000001''"

definition employeeUser :: JwtUser where
  "employeeUser = \<lparr>u_id = employeeId, u_type = ''employee'', u_email = ''guard@residentialapp.com''\<rparr>"

definition inactiveEmployeeDb :: database where
  "inactiveEmployeeDb = emptyDb\<lparr>employees := [\<lparr>emp_id = employeeId, emp_status = EMP_INACTIVE\<rparr>]\<rparr>"

definition employeeHeader :: header where
  "employeeHeader = Some [Word ''Bearer'', generateToken cfg0 90000000 employeeUser]"




definition noBody :: RegistrationBody where
  "noBody = \<lparr>rb_name = Undefined, rb_apartment = Undefined, rb_phone = Undefined,
     rb_email = Undefined, rb_familyMembers = Undefined, rb_username = Undefined,
     rb_password = Undefined, rb_idDocumentType = Undefined, rb_ownershipType = Undefined,
     rb_monthlyIncome = Undefined, rb_optionalStrings = replicate 14 Undefined\<rparr>"



definition env0 :: Env where
  "env0 = \<lparr>env_now = 90000100, env_tz = 18000000, env_newId = ''65a000000000000000000009'',
     env_salt = ''salt''\<rparr>"


definition pingRequest :: Request where
  "pingRequest = \<lparr>req_ip = ''10.0.0.7'', req_bodyError = None, req_authorization = None,
     req_route = NoRoute ''GET'' ''/api/ping''\<rparr>"


definition logoutRequest :: Request where
  "logoutRequest = pingRequest\<lparr>req_authorization := adminHeader, req_route := LogoutRoute\<rparr>"





definition busyServer :: Server where
  "busyServer = \<lparr>srv_db = emptyDb, srv_hits = [''10.0.0.7'' \<mapsto> (100, 90500000)]\<rparr>"

definition quietServer :: Server where
  "quietServer = \<lparr>srv_db = emptyDb, srv_hits = [''10.0.0.7'' \<mapsto> (3, 90500000)]\<rparr>"

section \<open>Today's statistics\<close>

lemma startOfDay_midnight:
  "(startOfDay tz now + tz) mod dayMs = 0 \<and> startOfDay tz now \<le> now \<and> now < nextDay (startOfDay tz now)"
proof -
  have pos: "(0::int) < dayMs" by (simp add: dayMs_def)
  have a: "0 \<le> (now + tz) mod dayMs" using pos by simp
  have b: "(now + tz) mod dayMs < dayMs" using pos by simp
  have "startOfDay tz now + tz = (now + tz) - (now + tz) mod dayMs" by (simp add: startOfDay_def)
  then have "(startOfDay tz now + tz) mod dayMs = 0" by (simp add: minus_mod_eq_mult_div)
  with a b show ?thesis by (simp add: startOfDay_def nextDay_def)
qed

text \<open>
  C9. \<open>GET /api/gate-entries/stats/today\<close> answers 200 with statistics in which
  \<open>totalEntries\<close> and \<open>totalExits\<close> count the gate entries of type ENTRY and EXIT
  created from local midnight (inclusive) to the next midnight (exclusive), and
  \<open>currentOccupancy\<close> is \<open>max(0, totalEntries - totalExits)\<close>: it is never negative,
  and it is 0 when the exits of the day outnumber the entries. The database is unchanged.
\<close>

theorem statsToday_occupancy:
  "\<exists>s. statsToday db tz now = (\<lparr>status = 200, error = None, message = None, body = StatsPayload s\<rparr>, db)
     \<and> totalEntries s = length (filter (\<lambda>e. ge_type e = ENTRY \<and> startOfDay tz now \<le> ge_createdAt e
            \<and> ge_createdAt e < nextDay (startOfDay tz now)) (gateEntries db))
     \<and> totalExits s = length (filter (\<lambda>e. ge_type e = EXIT \<and> startOfDay tz now \<le> ge_createdAt e
            \<and> ge_createdAt e < nextDay (startOfDay tz now)) (gateEntries db))
     \<and> currentOccupancy s = max 0 (int (totalEntries s) - int (totalExits s))
     \<and> 0 \<le> currentOccupancy s
     \<and> (totalEntries s < totalExits s \<longrightarrow> currentOccupancy s = 0)
     \<and> (startOfDay tz now + tz) mod dayMs = 0 \<and> startOfDay tz now \<le> now
     \<and> now < nextDay (startOfDay tz now)"
  using startOfDay_midnight [of tz now]
  by (simp add: statsToday_def Let_def okJson_def countGateEntries_def createdWithin_def)

theorem statsToday_occupancy_witness:
  "\<exists>s. body (fst (statsToday exitOnly 0 90000001)) = StatsPayload s \<and> totalEntries s = 0 \<and> totalExits s = 1
     \<and> totalEntries s < totalExits s \<and> currentOccupancy s = 0"
  using statsToday_occupancy [of exitOnly 0 90000001]
  by (auto simp add: exitOnly_def emptyDb_def startOfDay_def nextDay_def dayMs_def)

section \<open>The entry/exit toggle of the QR scan\<close>
























section \<open>Alternation of a log written by QR scans\<close>

























section \<open>The validity window of a guest scan\<close>











section \<open>Resident registration\<close>

lemmas register_defs = residentRegister_def residentRegisterBody_def tryCatch_def andThen_def
  ResidentRegistrationSchema_parse_def ResidentRegistrationSchema_ok_def findExistingResident_def
  createResident_def violatesUnique_def addResident_def oneOf_def optional_def isInt32_def
  list_all_iff okJson_def errorJson_def

lemma find_None_iff: "find P xs = None \<longleftrightarrow> \<not> list_ex P xs"
  by (induction xs) auto

lemma existing_iff: "findExistingResident db b = None \<longleftrightarrow> \<not> duplicate db b"
  by (simp add: findExistingResident_def duplicate_def find_None_iff)

lemma register_invalid:
  assumes "\<not> ResidentRegistrationSchema_ok libs b"
  shows "status (fst (residentRegister libs db newId salt b)) = 400 \<and>
         error (fst (residentRegister libs db newId salt b)) = Some ''Registration failed'' \<and>
         snd (residentRegister libs db newId salt b) = db"
  using assms
  by (simp add: residentRegister_def residentRegisterBody_def tryCatch_def andThen_def
      ResidentRegistrationSchema_parse_def errorJson_def)

lemma register_duplicate:
  assumes "ResidentRegistrationSchema_ok libs b" and "findExistingResident db b = Some x"
  shows "status (fst (residentRegister libs db newId salt b)) = 400 \<and>
         error (fst (residentRegister libs db newId salt b)) = Some ''Resident already exists'' \<and>
         snd (residentRegister libs db newId salt b) = db"
  using assms
  by (simp add: residentRegister_def residentRegisterBody_def tryCatch_def andThen_def
      ResidentRegistrationSchema_parse_def errorJson_def)

lemma minLength_Str: "minLength n v \<Longrightarrow> \<exists>s. v = Str s"
  by (cases v) simp_all

lemma isEmailString_Str: "isEmailString libs v \<Longrightarrow> \<exists>s. v = Str s"
  by (cases v) simp_all

lemma ok_fields:
  assumes "ResidentRegistrationSchema_ok libs b"
  shows "\<exists>e a. rb_email b = Str e \<and> rb_apartment b = Str a"
  using assms minLength_Str [of 1 "rb_apartment b"] isEmailString_Str [of libs "rb_email b"]
  by (auto simp: ResidentRegistrationSchema_ok_def)

lemma intColumn_whole: "wholeInt32 v \<Longrightarrow> intColumn v = Inr (floorOf v)"
  by (cases v) simp_all

lemma intColumn_refuses: "\<not> wholeInt32 v \<Longrightarrow> \<exists>err. intColumn v = Inl err"
  by (cases v) simp_all

lemma violates_iff:
  assumes "ResidentRegistrationSchema_ok libs b" and "findExistingResident db b = None"
  shows "violatesUnique db (newResident libs newId salt b) \<longleftrightarrow> usernameTaken db b"
proof -
  from ok_fields [OF assms(1)] obtain e a where ea: "rb_email b = Str e" "rb_apartment b = Str a"
    by blast
  from assms(2) have "\<forall>r\<in>set (residents db). r_email r \<noteq> e \<and> r_apartment r \<noteq> a"
    by (auto simp: existing_iff duplicate_def list_ex_iff ea)
  then show ?thesis
    by (auto simp: violatesUnique_def usernameTaken_def newResident_def list_ex_iff ea)
qed

lemma register_unfit:
  assumes "ResidentRegistrationSchema_ok libs b" and "findExistingResident db b = None"
    and "\<not> wholeInt32 (rb_familyMembers b)"
  shows "status (fst (residentRegister libs db newId salt b)) = 400 \<and>
         error (fst (residentRegister libs db newId salt b)) = Some ''Registration failed'' \<and>
         snd (residentRegister libs db newId salt b) = db"
proof -
  from intColumn_refuses [OF assms(3)] obtain err where "intColumn (rb_familyMembers b) = Inl err" ..
  with assms(1,2) show ?thesis
    by (simp add: residentRegister_def residentRegisterBody_def tryCatch_def andThen_def
        ResidentRegistrationSchema_parse_def errorJson_def)
qed

lemma register_fresh:
  assumes "ResidentRegistrationSchema_ok libs b" and "findExistingResident db b = None"
    and "wholeInt32 (rb_familyMembers b)"
  shows "residentRegister libs db newId salt b =
           (if usernameTaken db b
            then (errorJson 400 ''Registration failed'' ''Unique constraint failed'', db)
            else (okJson 201 (Some ''Registration successful'')
                    (RegisteredPayload newId (jsString (rb_name b)) (jsString (rb_email b))
                       (jsString (rb_apartment b)) ''Pending'' PENDING),
                  addResident db (newResident libs newId salt b)))"
  using assms(1,2) violates_iff [OF assms(1,2), of newId salt] intColumn_whole [OF assms(3)]
  by (simp add: residentRegister_def residentRegisterBody_def tryCatch_def andThen_def
      ResidentRegistrationSchema_parse_def createResident_def newResident_def
      errorMessage_def prismaKnownError_def mkError_def)

lemma find_append_fresh:
  "\<not> list_ex P xs \<Longrightarrow> P x \<Longrightarrow> find P (xs @ [x]) = Some x"
  by (induction xs) auto

lemma pending_rejected:
  assumes "isObjectId newId" and "\<not> list_ex (\<lambda>r. r_id r = newId) (residents db)"
    and "r_id r = newId" and "r_status r = ''Pending''"
  shows "verifyUserExists (addResident db r) (Some (residentUser newId e)) =
           Some (accountInactive ''Your resident account is not active or approved'')"
  using assms find_append_fresh [of "\<lambda>x. r_id x = newId" "residents db" r]
  by (simp add: verifyUserExists_def verifyUserExistsBody_def tryCatch_def residentUser_def
      findUniqueById_def addResident_def)

lemma approve_added:
  assumes "isObjectId newId" and "\<not> list_ex (\<lambda>x. r_id x = newId) (residents db)" and "r_id r = newId"
  shows "snd (approveResident (addResident db r) newId (Some ''APPROVED'')) =
           addResident db (r\<lparr>r_approvalStatus := APPROVED, r_status := ''Active''\<rparr>)"
proof -
  let ?f = "\<lambda>x. x\<lparr>r_approvalStatus := APPROVED, r_status := ''Active''\<rparr>"
  have m: "map (\<lambda>x. if r_id x = newId then ?f x else x) (residents db) = residents db"
    using assms(2) by (intro map_idI) (auto simp: list_ex_iff)
  have f: "find (\<lambda>x. r_id x = newId) (residents db @ [r]) = Some r"
    using assms(2,3) by (intro find_append_fresh) simp_all
  show ?thesis
    using assms(1,3) m f
    by (simp add: approveResident_def approveResidentBody_def tryCatch_def parseApproval_def
        updateResident_def findUniqueById_def addResident_def)
qed

lemma approved_passes:
  assumes "isObjectId newId" and "\<not> list_ex (\<lambda>x. r_id x = newId) (residents db)" and "r_id r = newId"
  shows "verifyUserExists (snd (approveResident (addResident db r) newId (Some ''APPROVED'')))
           (Some (residentUser newId e)) = None"
proof -
  let ?r = "r\<lparr>r_approvalStatus := APPROVED, r_status := ''Active''\<rparr>"
  have "find (\<lambda>x. r_id x = newId) (residents db @ [?r]) = Some ?r"
    using assms(2,3) by (intro find_append_fresh) simp_all
  then show ?thesis
    using assms(1) unfolding approve_added [OF assms]
    by (simp add: verifyUserExists_def verifyUserExistsBody_def tryCatch_def residentUser_def
        findUniqueById_def addResident_def)
qed

text \<open>
  C5 (amended). \<open>POST /api/auth/resident/register\<close> answers 400 and writes nothing
  when the body fails validation, when a resident with the same e-mail or the same
  apartment exists ("Resident already exists"), when the number of family members is not
  a whole number of 32 bits (the column is an Int), and when the username of the body,
  given or absent, is that of a stored resident (the unique index refuses the row, and
  it holds one resident without a username). Otherwise it answers 201 and adds exactly
  one resident, with approvalStatus PENDING and status "Pending"; with a fresh ObjectId
  as its id, the middleware's status check rejects that resident with 403, and passes it
  once the approval endpoint has set it to APPROVED.
\<close>

theorem residentRegister_outcomes:
  fixes libs db newId salt b
  defines "reply \<equiv> fst (residentRegister libs db newId salt b)"
    and "after \<equiv> snd (residentRegister libs db newId salt b)"
  shows "(\<not> ResidentRegistrationSchema_ok libs b \<longrightarrow> status reply = 400 \<and> after = db) \<and>
         (ResidentRegistrationSchema_ok libs b \<and> duplicate db b \<longrightarrow>
            status reply = 400 \<and> error reply = Some ''Resident already exists'' \<and> after = db) \<and>
         (ResidentRegistrationSchema_ok libs b \<and> \<not> duplicate db b \<and>
          (\<not> wholeInt32 (rb_familyMembers b) \<or> usernameTaken db b) \<longrightarrow>
            status reply = 400 \<and> error reply = Some ''Registration failed'' \<and> after = db) \<and>
         (ResidentRegistrationSchema_ok libs b \<and> \<not> duplicate db b \<and>
          wholeInt32 (rb_familyMembers b) \<and> \<not> usernameTaken db b \<longrightarrow>
            (\<exists>r. status reply = 201 \<and> after = addResident db r \<and>
                 residents after = residents db @ [r] \<and> r_id r = newId \<and>
                 Str (r_email r) = rb_email b \<and> Str (r_apartment r) = rb_apartment b \<and>
                 r_approvalStatus r = PENDING \<and> r_status r = ''Pending'' \<and>
                 (isObjectId newId \<and> \<not> list_ex (\<lambda>x. r_id x = newId) (residents db) \<longrightarrow>
                    verifyUserExists after (Some (residentUser newId (r_email r))) =
                      Some (accountInactive ''Your resident account is not active or approved'') \<and>
                    verifyUserExists (snd (approveResident after newId (Some ''APPROVED'')))
                      (Some (residentUser newId (r_email r))) = None)))"
proof -
  have c1: "\<not> ResidentRegistrationSchema_ok libs b \<longrightarrow> status reply = 400 \<and> after = db"
    using register_invalid [of libs b db newId salt] by (simp add: reply_def after_def)
  have c2: "ResidentRegistrationSchema_ok libs b \<and> duplicate db b \<longrightarrow>
            status reply = 400 \<and> error reply = Some ''Resident already exists'' \<and> after = db"
  proof
    assume a: "ResidentRegistrationSchema_ok libs b \<and> duplicate db b"
    then obtain x where "findExistingResident db b = Some x"
      using existing_iff [of db b] by auto
    with a register_duplicate [of libs b db x newId salt]
    show "status reply = 400 \<and> error reply = Some ''Resident already exists'' \<and> after = db"
      by (simp add: reply_def after_def)
  qed
  have c3: "ResidentRegistrationSchema_ok libs b \<and> \<not> duplicate db b \<and>
          (\<not> wholeInt32 (rb_familyMembers b) \<or> usernameTaken db b) \<longrightarrow>
            status reply = 400 \<and> error reply = Some ''Registration failed'' \<and> after = db"
  proof
    assume a: "ResidentRegistrationSchema_ok libs b \<and> \<not> duplicate db b \<and>
          (\<not> wholeInt32 (rb_familyMembers b) \<or> usernameTaken db b)"
    then have n: "findExistingResident db b = None" by (simp add: existing_iff)
    show "status reply = 400 \<and> error reply = Some ''Registration failed'' \<and> after = db"
    proof (cases "wholeInt32 (rb_familyMembers b)")
      case True
      with a n register_fresh [of libs b db newId salt] show ?thesis
        by (simp add: reply_def after_def errorJson_def)
    next
      case False
      with a n register_unfit [of libs b db newId salt] show ?thesis
        by (simp add: reply_def after_def)
    qed
  qed
  have c4: "ResidentRegistrationSchema_ok libs b \<and> \<not> duplicate db b \<and>
          wholeInt32 (rb_familyMembers b) \<and> \<not> usernameTaken db b \<longrightarrow>
            (\<exists>r. status reply = 201 \<and> after = addResident db r \<and>
                 residents after = residents db @ [r] \<and> r_id r = newId \<and>
                 Str (r_email r) = rb_email b \<and> Str (r_apartment r) = rb_apartment b \<and>
                 r_approvalStatus r = PENDING \<and> r_status r = ''Pending'' \<and>
                 (isObjectId newId \<and> \<not> list_ex (\<lambda>x. r_id x = newId) (residents db) \<longrightarrow>
                    verifyUserExists after (Some (residentUser newId (r_email r))) =
                      Some (accountInactive ''Your resident account is not active or approved'') \<and>
                    verifyUserExists (snd (approveResident after newId (Some ''APPROVED'')))
                      (Some (residentUser newId (r_email r))) = None))"
  proof
    assume a: "ResidentRegistrationSchema_ok libs b \<and> \<not> duplicate db b \<and>
          wholeInt32 (rb_familyMembers b) \<and> \<not> usernameTaken db b"
    then have n: "findExistingResident db b = None" by (simp add: existing_iff)
    let ?r = "newResident libs newId salt b"
    from a n register_fresh [of libs b db newId salt]
    have r: "residentRegister libs db newId salt b =
               (okJson 201 (Some ''Registration successful'')
                  (RegisteredPayload newId (jsString (rb_name b)) (jsString (rb_email b))
                     (jsString (rb_apartment b)) ''Pending'' PENDING), addResident db ?r)"
      by simp
    from ok_fields [of libs b] a obtain e ap where ea: "rb_email b = Str e" "rb_apartment b = Str ap"
      by blast
    have id: "r_id ?r = newId" and st: "r_status ?r = ''Pending''" by (simp_all add: newResident_def)
    have "status reply = 201 \<and> after = addResident db ?r \<and> residents after = residents db @ [?r] \<and>
          r_id ?r = newId \<and> Str (r_email ?r) = rb_email b \<and> Str (r_apartment ?r) = rb_apartment b \<and>
          r_approvalStatus ?r = PENDING \<and> r_status ?r = ''Pending''"
      using r ea by (simp add: reply_def after_def okJson_def addResident_def newResident_def)
    moreover have "isObjectId newId \<and> \<not> list_ex (\<lambda>x. r_id x = newId) (residents db) \<longrightarrow>
          verifyUserExists after (Some (residentUser newId (r_email ?r))) =
            Some (accountInactive ''Your resident account is not active or approved'') \<and>
          verifyUserExists (snd (approveResident after newId (Some ''APPROVED'')))
            (Some (residentUser newId (r_email ?r))) = None"
      using pending_rejected [OF _ _ id st, of db] approved_passes [OF _ _ id, of db] r
      by (simp add: after_def)
    ultimately show "\<exists>r. status reply = 201 \<and> after = addResident db r \<and>
                   residents after = residents db @ [r] \<and> r_id r = newId \<and>
                   Str (r_email r) = rb_email b \<and> Str (r_apartment r) = rb_apartment b \<and>
                   r_approvalStatus r = PENDING \<and> r_status r = ''Pending'' \<and>
                   (isObjectId newId \<and> \<not> list_ex (\<lambda>x. r_id x = newId) (residents db) \<longrightarrow>
                      verifyUserExists after (Some (residentUser newId (r_email r))) =
                        Some (accountInactive ''Your resident account is not active or approved'') \<and>
                      verifyUserExists (snd (approveResident after newId (Some ''APPROVED'')))
                        (Some (residentUser newId (r_email r))) = None)"
      by blast
  qed
  from c1 c2 c3 c4 show ?thesis by blast
qed

lemma bob_ok:
  "ResidentRegistrationSchema_ok libs0 bobBody \<and> ResidentRegistrationSchema_ok libs0 otherBobBody \<and>
   ResidentRegistrationSchema_ok libs0 annBody \<and> ResidentRegistrationSchema_ok libs0 benBody \<and>
   ResidentRegistrationSchema_ok libs0 halfBody \<and> \<not> ResidentRegistrationSchema_ok libs0 noBody"
  by (simp add: ResidentRegistrationSchema_ok_def libs0_def bobBody_def otherBobBody_def annBody_def
      benBody_def halfBody_def noBody_def oneOf_def optional_def list_all_iff)

lemma bob_id: "isObjectId bobId"
  by (simp add: isObjectId_def bobId_def isHexDigit_def)

lemma bobRegistered_rows:
  "map r_email (residents bobRegistered) = [''bob@example.com''] \<and>
   map r_apartment (residents bobRegistered) = [''B-205''] \<and>
   map r_username (residents bobRegistered) = [Some ''bob'']"
  by (simp add: bobRegistered_def register_defs bobBody_def libs0_def emptyDb_def)

lemma annRegistered_rows:
  "map r_email (residents annRegistered) = [''ann@example.com''] \<and>
   map r_apartment (residents annRegistered) = [''D-401''] \<and>
   map r_username (residents annRegistered) = [None]"
  by (simp add: annRegistered_def register_defs annBody_def bobBody_def libs0_def emptyDb_def)

lemma floor_half: "\<lfloor>3 / 2 :: rat\<rfloor> = 1"
  by (simp add: floor_eq_iff)

lemma fits:
  "wholeInt32 (rb_familyMembers bobBody) \<and> wholeInt32 (rb_familyMembers otherBobBody) \<and>
   wholeInt32 (rb_familyMembers benBody) \<and> \<not> wholeInt32 (rb_familyMembers halfBody)"
  by (simp add: bobBody_def otherBobBody_def benBody_def annBody_def halfBody_def isInt32_def
      floor_half)

theorem residentRegister_outcomes_witness:
  "ResidentRegistrationSchema_ok libs0 bobBody \<and> residents emptyDb = [] \<and> isObjectId bobId \<and>
   status (fst (residentRegister libs0 emptyDb bobId ''salt'' bobBody)) = 201 \<and>
   map r_status (residents bobRegistered) = [''Pending''] \<and>
   map r_approvalStatus (residents bobRegistered) = [PENDING] \<and>
   verifyUserExists bobRegistered (Some (residentUser bobId ''bob@example.com'')) =
     Some (accountInactive ''Your resident account is not active or approved'') \<and>
   verifyUserExists (snd (approveResident bobRegistered bobId (Some ''APPROVED'')))
     (Some (residentUser bobId ''bob@example.com'')) = None \<and>
   \<not> ResidentRegistrationSchema_ok libs0 noBody \<and>
   status (fst (residentRegister libs0 bobRegistered ''65b000000000000000000002'' ''salt'' noBody)) = 400 \<and>
   error (fst (residentRegister libs0 bobRegistered ''65b000000000000000000002'' ''salt'' bobBody))
     = Some ''Resident already exists'' \<and>
   snd (residentRegister libs0 bobRegistered ''65b000000000000000000002'' ''salt'' bobBody) = bobRegistered \<and>
   usernameTaken bobRegistered otherBobBody \<and>
   error (fst (residentRegister libs0 bobRegistered ''65b000000000000000000002'' ''salt'' otherBobBody))
     = Some ''Registration failed'' \<and>
   snd (residentRegister libs0 bobRegistered ''65b000000000000000000002'' ''salt'' otherBobBody) = bobRegistered \<and>
   \<not> wholeInt32 (rb_familyMembers halfBody) \<and>
   error (fst (residentRegister libs0 emptyDb bobId ''salt'' halfBody)) = Some ''Registration failed'' \<and>
   snd (residentRegister libs0 emptyDb bobId ''salt'' halfBody) = emptyDb"
proof -
  have e: "residents emptyDb = []" by (simp add: emptyDb_def)
  have d: "\<not> duplicate emptyDb bobBody" "\<not> duplicate emptyDb halfBody"
    and u: "\<not> usernameTaken emptyDb bobBody" and f: "\<not> list_ex (\<lambda>x. r_id x = bobId) (residents emptyDb)"
    by (simp_all add: e usernameTaken_def duplicate_def)
  from residentRegister_outcomes [of libs0 bobBody emptyDb bobId "''salt''"] bob_ok d u f bob_id fits
  obtain r where r: "status (fst (residentRegister libs0 emptyDb bobId ''salt'' bobBody)) = 201"
    "residents bobRegistered = residents emptyDb @ [r]" "Str (r_email r) = rb_email bobBody"
    "r_approvalStatus r = PENDING" "r_status r = ''Pending''"
    "verifyUserExists bobRegistered (Some (residentUser bobId (r_email r))) =
       Some (accountInactive ''Your resident account is not active or approved'')"
    "verifyUserExists (snd (approveResident bobRegistered bobId (Some ''APPROVED'')))
       (Some (residentUser bobId (r_email r))) = None"
    unfolding bobRegistered_def by blast
  from r(3) have m: "r_email r = ''bob@example.com''" by (simp add: bobBody_def)
  from residentRegister_outcomes [of libs0 noBody bobRegistered "''65b000000000000000000002''" "''salt''"] bob_ok
  have 1: "status (fst (residentRegister libs0 bobRegistered ''65b000000000000000000002'' ''salt'' noBody)) = 400"
    by blast
  have dup: "duplicate bobRegistered bobBody"
    using bobRegistered_rows by (auto simp: duplicate_def list_ex_iff bobBody_def)
  from residentRegister_outcomes [of libs0 bobBody bobRegistered "''65b000000000000000000002''" "''salt''"]
    bob_ok dup
  have 2: "error (fst (residentRegister libs0 bobRegistered ''65b000000000000000000002'' ''salt'' bobBody))
     = Some ''Resident already exists''"
    "snd (residentRegister libs0 bobRegistered ''65b000000000000000000002'' ''salt'' bobBody) = bobRegistered"
    by blast+
  have nd: "\<not> duplicate bobRegistered otherBobBody"
    using bobRegistered_rows by (auto simp: duplicate_def list_ex_iff otherBobBody_def bobBody_def)
  have tk: "usernameTaken bobRegistered otherBobBody"
    using bobRegistered_rows by (auto simp: usernameTaken_def list_ex_iff otherBobBody_def bobBody_def)
  from residentRegister_outcomes [of libs0 otherBobBody bobRegistered "''65b000000000000000000002''" "''salt''"]
    bob_ok nd tk
  have 3: "error (fst (residentRegister libs0 bobRegistered ''65b000000000000000000002'' ''salt'' otherBobBody))
     = Some ''Registration failed''"
    "snd (residentRegister libs0 bobRegistered ''65b000000000000000000002'' ''salt'' otherBobBody) = bobRegistered"
    by blast+
  from residentRegister_outcomes [of libs0 halfBody emptyDb bobId "''salt''"] bob_ok d(2) fits
  have 4: "error (fst (residentRegister libs0 emptyDb bobId ''salt'' halfBody)) = Some ''Registration failed''"
    "snd (residentRegister libs0 emptyDb bobId ''salt'' halfBody) = emptyDb"
    by blast+
  from r m bob_ok bob_id e 1 2 3 4 tk fits show ?thesis by simp
qed

text \<open>
  C5 as stated fails: with no resident of the same e-mail or apartment, a registration is
  answered 400 and adds no resident when its username is taken, when it has one and a
  half family members, when it has no username and a resident without a username is
  stored, and when its body is empty.
\<close>

theorem register_taken_username_creates_nothing:
  "ResidentRegistrationSchema_ok libs0 otherBobBody \<and> \<not> duplicate bobRegistered otherBobBody \<and>
   status (fst (residentRegister libs0 bobRegistered ''65b000000000000000000002'' ''salt'' otherBobBody)) = 400 \<and>
   snd (residentRegister libs0 bobRegistered ''65b000000000000000000002'' ''salt'' otherBobBody) = bobRegistered \<and>
   ResidentRegistrationSchema_ok libs0 halfBody \<and> \<not> duplicate emptyDb halfBody \<and>
   rb_familyMembers halfBody = Number (3 / 2) ''1.5'' \<and>
   status (fst (residentRegister libs0 emptyDb bobId ''salt'' halfBody)) = 400 \<and>
   snd (residentRegister libs0 emptyDb bobId ''salt'' halfBody) = emptyDb \<and>
   ResidentRegistrationSchema_ok libs0 benBody \<and> \<not> duplicate annRegistered benBody \<and>
   rb_username benBody = Undefined \<and> map r_username (residents annRegistered) = [None] \<and>
   status (fst (residentRegister libs0 annRegistered ''65b000000000000000000002'' ''salt'' benBody)) = 400 \<and>
   snd (residentRegister libs0 annRegistered ''65b000000000000000000002'' ''salt'' benBody) = annRegistered \<and>
   \<not> duplicate emptyDb noBody \<and>
   status (fst (residentRegister libs0 emptyDb bobId ''salt'' noBody)) = 400 \<and>
   snd (residentRegister libs0 emptyDb bobId ''salt'' noBody) = emptyDb"
proof -
  have 1: "\<not> duplicate bobRegistered otherBobBody \<and>
     status (fst (residentRegister libs0 bobRegistered ''65b000000000000000000002'' ''salt'' otherBobBody)) = 400 \<and>
     snd (residentRegister libs0 bobRegistered ''65b000000000000000000002'' ''salt'' otherBobBody) = bobRegistered"
    by (simp add: register_defs duplicate_def bobRegistered_def otherBobBody_def bobBody_def libs0_def
        emptyDb_def bobId_def)
  have 2: "\<not> duplicate emptyDb halfBody \<and> rb_familyMembers halfBody = Number (3 / 2) ''1.5'' \<and>
     status (fst (residentRegister libs0 emptyDb bobId ''salt'' halfBody)) = 400 \<and>
     snd (residentRegister libs0 emptyDb bobId ''salt'' halfBody) = emptyDb"
    by (simp add: register_defs duplicate_def halfBody_def bobBody_def libs0_def emptyDb_def
        floor_half)
  have 3: "\<not> duplicate annRegistered benBody \<and> rb_username benBody = Undefined \<and>
     map r_username (residents annRegistered) = [None] \<and>
     status (fst (residentRegister libs0 annRegistered ''65b000000000000000000002'' ''salt'' benBody)) = 400 \<and>
     snd (residentRegister libs0 annRegistered ''65b000000000000000000002'' ''salt'' benBody) = annRegistered"
    by (simp add: register_defs duplicate_def annRegistered_def benBody_def annBody_def bobBody_def
        libs0_def emptyDb_def bobId_def)
  have 4: "\<not> duplicate emptyDb noBody \<and>
     status (fst (residentRegister libs0 emptyDb bobId ''salt'' noBody)) = 400 \<and>
     snd (residentRegister libs0 emptyDb bobId ''salt'' noBody) = emptyDb"
    by (simp add: register_defs duplicate_def noBody_def emptyDb_def)
  from bob_ok 1 2 3 4 show ?thesis by simp
qed

section \<open>Maintenance bill counts\<close>

lemma find_Some_mem: "find P xs = Some x \<Longrightarrow> x \<in> set xs \<and> P x"
  by (induction xs) (auto split: if_splits)

lemma updateBillStatus_overdue:
  assumes "isObjectId i" and "find (\<lambda>x. b_id x = i) (maintenanceBills db) = Some bill"
  shows "updateBillStatus db now i setOverdue =
           (okJson 200 (Some ''Bill status updated successfully'')
              (BillPayload (bill\<lparr>b_status := BILL_OVERDUE\<rparr>)),
            db\<lparr>maintenanceBills :=
                 map (\<lambda>x. if b_id x = i then bill\<lparr>b_status := BILL_OVERDUE\<rparr> else x)
                   (maintenanceBills db)\<rparr>)"
  using assms
  by (simp add: updateBillStatus_def updateBillStatusBody_def tryCatch_def BillUpdateSchema_parse_def
      parseBillStatus_def setOverdue_def findUniqueById_def Let_def)

lemma length_filter_map_cong:
  "(\<And>x. x \<in> set xs \<Longrightarrow> P (f x) = Q x) \<Longrightarrow> length (filter P (map f xs)) = length (filter Q xs)"
  by (induction xs) auto

text \<open>
  C8. The admin dashboard counts as \<open>pendingBills\<close> the bills with status PENDING, as
  \<open>paidBills\<close> those with status PAID, and as \<open>overdueBills\<close> exactly the bills with
  status PENDING whose \<open>dueDate\<close> is before the current time. The bill status update
  accepts OVERDUE and stores it; a bill set to OVERDUE is then not counted as overdue.
\<close>

theorem billStatistics_counts:
  "\<exists>s. adminStats db now = (\<lparr>status = 200, error = None, message = None, body = BillStatsPayload s\<rparr>, db) \<and>
      pendingBills s = length (filter (\<lambda>b. b_status b = BILL_PENDING) (maintenanceBills db)) \<and>
      paidBills s = length (filter (\<lambda>b. b_status b = BILL_PAID) (maintenanceBills db)) \<and>
      overdueBills s =
        length (filter (\<lambda>b. b_status b = BILL_PENDING \<and> b_dueDate b < now) (maintenanceBills db)) \<and>
      (isObjectId i \<and> find (\<lambda>x. b_id x = i) (maintenanceBills db) = Some bill \<longrightarrow>
         status (fst (updateBillStatus db t i setOverdue)) = 200 \<and>
         list_all (\<lambda>x. b_id x = i \<longrightarrow> b_status x = BILL_OVERDUE)
           (maintenanceBills (snd (updateBillStatus db t i setOverdue))) \<and>
         overdueBills (billStatistics (snd (updateBillStatus db t i setOverdue)) now) =
           length (filter (\<lambda>b. b_id b \<noteq> i \<and> b_status b = BILL_PENDING \<and> b_dueDate b < now)
                     (maintenanceBills db)))"
proof -
  have upd: "isObjectId i \<and> find (\<lambda>x. b_id x = i) (maintenanceBills db) = Some bill \<longrightarrow>
         status (fst (updateBillStatus db t i setOverdue)) = 200 \<and>
         list_all (\<lambda>x. b_id x = i \<longrightarrow> b_status x = BILL_OVERDUE)
           (maintenanceBills (snd (updateBillStatus db t i setOverdue))) \<and>
         overdueBills (billStatistics (snd (updateBillStatus db t i setOverdue)) now) =
           length (filter (\<lambda>b. b_id b \<noteq> i \<and> b_status b = BILL_PENDING \<and> b_dueDate b < now)
                     (maintenanceBills db))"
  proof
    assume a: "isObjectId i \<and> find (\<lambda>x. b_id x = i) (maintenanceBills db) = Some bill"
    then have u: "updateBillStatus db t i setOverdue =
           (okJson 200 (Some ''Bill status updated successfully'')
              (BillPayload (bill\<lparr>b_status := BILL_OVERDUE\<rparr>)),
            db\<lparr>maintenanceBills :=
                 map (\<lambda>x. if b_id x = i then bill\<lparr>b_status := BILL_OVERDUE\<rparr> else x)
                   (maintenanceBills db)\<rparr>)"
      by (simp add: updateBillStatus_overdue)
    have "length (filter (\<lambda>b. b_status b = BILL_PENDING \<and> b_dueDate b < now)
            (map (\<lambda>x. if b_id x = i then bill\<lparr>b_status := BILL_OVERDUE\<rparr> else x) (maintenanceBills db)))
          = length (filter (\<lambda>b. b_id b \<noteq> i \<and> b_status b = BILL_PENDING \<and> b_dueDate b < now)
              (maintenanceBills db))"
      by (rule length_filter_map_cong) auto
    then show "status (fst (updateBillStatus db t i setOverdue)) = 200 \<and>
         list_all (\<lambda>x. b_id x = i \<longrightarrow> b_status x = BILL_OVERDUE)
           (maintenanceBills (snd (updateBillStatus db t i setOverdue))) \<and>
         overdueBills (billStatistics (snd (updateBillStatus db t i setOverdue)) now) =
           length (filter (\<lambda>b. b_id b \<noteq> i \<and> b_status b = BILL_PENDING \<and> b_dueDate b < now)
                     (maintenanceBills db))"
      unfolding u by (auto simp: okJson_def billStatistics_def countBills_def list_all_iff)
  qed
  show ?thesis
    using upd by (simp add: adminStats_def billStatistics_def countBills_def okJson_def)
qed

theorem billStatistics_counts_witness:
  "isObjectId ''65c000000000000000000001'' \<and>
   find (\<lambda>x. b_id x = ''65c000000000000000000001'') (maintenanceBills oneBill) = Some dueBill \<and>
   overdueBills (billStatistics oneBill 90000000) = 1 \<and>
   status (fst (updateBillStatus oneBill 90000000 ''65c000000000000000000001'' setOverdue)) = 200 \<and>
   map b_status (maintenanceBills (snd (updateBillStatus oneBill 90000000 ''65c000000000000000000001'' setOverdue)))
     = [BILL_OVERDUE] \<and>
   overdueBills (billStatistics
     (snd (updateBillStatus oneBill 90000000 ''65c000000000000000000001'' setOverdue)) 90000000) = 0"
proof -
  have a: "isObjectId ''65c000000000000000000001''" by (simp add: isObjectId_def isHexDigit_def)
  have b: "find (\<lambda>x. b_id x = ''65c000000000000000000001'') (maintenanceBills oneBill) = Some dueBill"
    by (simp add: oneBill_def dueBill_def emptyDb_def)
  have c: "overdueBills (billStatistics oneBill 90000000) = 1"
    by (simp add: billStatistics_def countBills_def oneBill_def dueBill_def emptyDb_def)
  have d: "map b_status (maintenanceBills (snd (updateBillStatus oneBill 90000000 ''65c000000000000000000001'' setOverdue)))
     = [BILL_OVERDUE]"
    unfolding updateBillStatus_overdue [OF a b] by (simp add: oneBill_def dueBill_def emptyDb_def)
  from billStatistics_counts [of oneBill 90000000 "''65c000000000000000000001''" dueBill 90000000] a b
  have "status (fst (updateBillStatus oneBill 90000000 ''65c000000000000000000001'' setOverdue)) = 200 \<and>
    overdueBills (billStatistics
     (snd (updateBillStatus oneBill 90000000 ''65c000000000000000000001'' setOverdue)) 90000000) =
     length (filter (\<lambda>b. b_id b \<noteq> ''65c000000000000000000001'' \<and> b_status b = BILL_PENDING \<and> b_dueDate b < 90000000)
                     (maintenanceBills oneBill))"
    by blast
  with a b c d show ?thesis by (simp add: oneBill_def dueBill_def emptyDb_def)
qed

section \<open>The middleware chain and logout\<close>

lemmas auth_defs = authWithRole_def authenticateAndVerify_def authenticateToken_def
  authenticateTokenBody_def headerToken_def noToken_def verifyToken_def generateToken_def
  verifyUserExists_def verifyUserExistsBody_def newObjectId_def findUniqueById_def
  authorizeRoles_def tryCatch_def isObjectId_def isHexDigit_def errorJson_def accountInactive_def

text \<open>
  What the chain does. A request is served exactly when its token verifies, the account
  check lets it pass and the type of the user is among the allowed roles; a missing token
  is answered 401, a token that does not verify 403, a missing account 404, a resident,
  service provider or employee whose status check fails 403, a type outside the allowed
  roles 403. The account check of an admin is the existence of the row.
\<close>

lemma authWithRole_serves:
  "authWithRole roles cfg db now h = Inr u \<longleftrightarrow>
     authenticateToken cfg now h = Inr u \<and> verifyUserExists db (Some u) = None \<and> u_type u \<in> set roles"
  by (cases "authenticateToken cfg now h"; cases "verifyUserExists db (Some u)")
     (auto simp: authWithRole_def authenticateAndVerify_def authorizeRoles_def split: option.splits)

lemma missing_token_401:
  "noToken (headerToken h) \<Longrightarrow>
     authWithRole roles cfg db now h = Inl (errorJson 401 ''Access denied'' ''No token provided'')"
  by (cases "headerToken h")
     (auto simp: authWithRole_def authenticateAndVerify_def authenticateToken_def
        authenticateTokenBody_def tryCatch_def)

lemma invalid_token_403:
  "headerToken h = Some t \<Longrightarrow> \<not> noToken (Some t) \<Longrightarrow> verifyToken cfg now t = Inl err \<Longrightarrow>
     authWithRole roles cfg db now h = Inl (errorJson 403 ''Invalid token'' ''Token is not valid or has expired'')"
  by (simp add: authWithRole_def authenticateAndVerify_def authenticateToken_def
        authenticateTokenBody_def tryCatch_def)

lemma verifyUserExists_admin:
  assumes "u_type u = ''admin''" and "isObjectId (u_id u)"
  shows "verifyUserExists db (Some u) =
           (case find (\<lambda>a. a_id a = u_id u) (admins db) of
              None \<Rightarrow> Some userNotFound
            | Some a \<Rightarrow> None)"
  using assms
  by (simp add: verifyUserExists_def verifyUserExistsBody_def tryCatch_def newObjectId_def
      findUniqueById_def split: option.splits)

lemma verifyUserExists_resident:
  assumes "u_type u = ''resident''" and "isObjectId (u_id u)"
  shows "verifyUserExists db (Some u) =
           (case find (\<lambda>r. r_id r = u_id u) (residents db) of
              None \<Rightarrow> Some userNotFound
            | Some r \<Rightarrow>
                (if r_status r = ''Active'' \<and> r_approvalStatus r = APPROVED then None
                 else Some (accountInactive ''Your resident account is not active or approved'')))"
  using assms
  by (simp add: verifyUserExists_def verifyUserExistsBody_def tryCatch_def findUniqueById_def
      split: option.splits)

lemma verifyUserExists_serviceProvider:
  assumes "u_type u = ''serviceProvider''" and "isObjectId (u_id u)"
  shows "verifyUserExists db (Some u) =
           (case find (\<lambda>p. sp_id p = u_id u) (serviceProviders db) of
              None \<Rightarrow> Some userNotFound
            | Some p \<Rightarrow>
                (if sp_status p = SP_ACTIVE then None
                 else Some (accountInactive ''Your service provider account is not active'')))"
  using assms
  by (simp add: verifyUserExists_def verifyUserExistsBody_def tryCatch_def findUniqueById_def
      split: option.splits)

lemma verifyUserExists_employee:
  assumes "u_type u = ''employee''" and "isObjectId (u_id u)"
  shows "verifyUserExists db (Some u) =
           (case find (\<lambda>e. emp_id e = u_id u) (employees db) of
              None \<Rightarrow> Some userNotFound
            | Some e \<Rightarrow>
                (if emp_status e = EMP_ACTIVE then None
                 else Some (accountInactive ''Your employee account is not active'')))"
  using assms
  by (simp add: verifyUserExists_def verifyUserExistsBody_def tryCatch_def findUniqueById_def
      split: option.splits)

lemma role_not_allowed_403:
  "authenticateAndVerify cfg db now h = Inr u \<Longrightarrow> u_type u \<notin> set roles \<Longrightarrow>
     authWithRole roles cfg db now h =
       Inl (errorJson 403 ''Forbidden'' ''You don't have permission to access this resource'')"
  by (simp add: authWithRole_def authorizeRoles_def)

text \<open>
  C2, at the input where the code departs from it: the admin case of
  \<open>verifyUserExists\<close> selects the status of the account and does not test it. An admin
  whose status is false passes the whole chain, where an employee whose status is
  INACTIVE is answered 403.
\<close>

theorem inactive_admin_is_served:
  "map a_status (admins inactiveAdminDb) = [False] \<and>
   authWithRole [''admin''] cfg0 inactiveAdminDb 90000100 adminHeader = Inr adminUser \<and>
   map emp_status (employees inactiveEmployeeDb) = [EMP_INACTIVE] \<and>
   authWithRole [''employee''] cfg0 inactiveEmployeeDb 90000100 employeeHeader =
     Inl (errorJson 403 ''Account inactive'' ''Your employee account is not active'')"
  by (simp add: auth_defs cfg0_def inactiveAdminDb_def adminHeader_def adminUser_def adminId_def
      inactiveEmployeeDb_def employeeHeader_def employeeUser_def employeeId_def emptyDb_def)

lemma authenticateToken_Inr:
  "authenticateToken cfg now h = Inr u \<longleftrightarrow>
     (\<exists>j. headerToken h = Some (JwtString j) \<and> jwt_secret j = JWT_SECRET cfg \<and>
          now div 1000 < jwt_exp j \<and> jwt_payload j = u)"
proof (cases "headerToken h")
  case None
  then show ?thesis by (simp add: authenticateToken_def authenticateTokenBody_def tryCatch_def)
next
  case (Some t)
  show ?thesis
  proof (cases t)
    case (Word w)
    with Some show ?thesis
      by (simp add: authenticateToken_def authenticateTokenBody_def tryCatch_def verifyToken_def)
  next
    case (JwtString j)
    with Some show ?thesis
      by (auto simp: authenticateToken_def authenticateTokenBody_def tryCatch_def verifyToken_def noToken_def)
  qed
qed

lemma authenticateToken_expired:
  assumes "headerToken h = Some (JwtString j)" and "jwt_exp j \<le> now div 1000"
  shows "authenticateToken cfg now h = Inl (errorJson 403 ''Invalid token'' ''Token is not valid or has expired'')"
  using assms
  by (simp add: authenticateToken_def authenticateTokenBody_def tryCatch_def verifyToken_def noToken_def)

lemma serve_logout:
  assumes "req_route req = LogoutRoute"
  shows "serve cfg libs srv env req =
           (if admitted cfg srv env req
            then (case req_bodyError req of
                    Some err \<Rightarrow> Json (errorHandler cfg err)
                  | None \<Rightarrow> Json (fst (logout cfg (srv_db srv) (env_now env) (req_authorization req))))
            else Json tooManyRequests,
            \<lparr>srv_db = srv_db srv,
             srv_hits = (srv_hits srv)(req_ip req \<mapsto>
                          countHit cfg (env_now env) (req_ip req) (srv_hits srv))\<rparr>)"
proof -
  have "snd (logout cfg (srv_db srv) (env_now env) (req_authorization req)) = srv_db srv"
    by (cases "authenticateToken cfg (env_now env) (req_authorization req)") (simp_all add: logout_def)
  then show ?thesis
    using assms
    by (cases "req_bodyError req")
       (auto simp: serve_def admitted_def Let_def route_def split: prod.splits)
qed

text \<open>
  C10 (amended). \<open>POST /api/auth/logout\<close> leaves the database as it is, whatever the
  request: no stored record changes and no token is recorded or revoked. The state of
  the server it changes is the count the rate limiter keeps in memory for the address of
  the client, and nothing else. A request beyond the limit is answered 429. When the
  limiter admits the request, the body parser raises no error and the token of the
  request verifies, the answer is 200 "Logout successful", and the same header keeps
  authenticating at every later time before the token's expiry, with the same result of
  the whole chain as on the database before the logout; from the expiry on it is refused.
\<close>

theorem logout_frame:
  assumes "req_route req = LogoutRoute"
  shows "srv_db (snd (serve cfg libs srv env req)) = srv_db srv \<and>
         srv_hits (snd (serve cfg libs srv env req)) =
           (srv_hits srv)(req_ip req \<mapsto> countHit cfg (env_now env) (req_ip req) (srv_hits srv)) \<and>
         (\<not> admitted cfg srv env req \<longrightarrow> fst (serve cfg libs srv env req) = Json tooManyRequests) \<and>
         (admitted cfg srv env req \<and> req_bodyError req = None \<and>
          authenticateToken cfg (env_now env) (req_authorization req) = Inr u \<longrightarrow>
            fst (serve cfg libs srv env req) = Json (okJson 200 (Some ''Logout successful'') NoPayload) \<and>
            (\<exists>j. headerToken (req_authorization req) = Some (JwtString j) \<and> jwt_payload j = u \<and>
               env_now env div 1000 < jwt_exp j \<and>
               (\<forall>later. later div 1000 < jwt_exp j \<longrightarrow>
                  authenticateToken cfg later (req_authorization req) = Inr u \<and>
                  authenticateAndVerify cfg (srv_db (snd (serve cfg libs srv env req))) later
                      (req_authorization req) =
                    authenticateAndVerify cfg (srv_db srv) later (req_authorization req)) \<and>
               (\<forall>later. jwt_exp j \<le> later div 1000 \<longrightarrow>
                  authenticateToken cfg later (req_authorization req) =
                    Inl (errorJson 403 ''Invalid token'' ''Token is not valid or has expired''))))"
proof -
  let ?h = "req_authorization req"
  note s = serve_logout [OF assms, of cfg libs srv env]
  have frame: "srv_db (snd (serve cfg libs srv env req)) = srv_db srv"
    and hits: "srv_hits (snd (serve cfg libs srv env req)) =
           (srv_hits srv)(req_ip req \<mapsto> countHit cfg (env_now env) (req_ip req) (srv_hits srv))"
    and refused: "\<not> admitted cfg srv env req \<longrightarrow> fst (serve cfg libs srv env req) = Json tooManyRequests"
    unfolding s by simp_all
  have served: "admitted cfg srv env req \<and> req_bodyError req = None \<and>
          authenticateToken cfg (env_now env) ?h = Inr u \<longrightarrow>
            fst (serve cfg libs srv env req) = Json (okJson 200 (Some ''Logout successful'') NoPayload) \<and>
            (\<exists>j. headerToken ?h = Some (JwtString j) \<and> jwt_payload j = u \<and>
               env_now env div 1000 < jwt_exp j \<and>
               (\<forall>later. later div 1000 < jwt_exp j \<longrightarrow>
                  authenticateToken cfg later ?h = Inr u \<and>
                  authenticateAndVerify cfg (srv_db (snd (serve cfg libs srv env req))) later ?h =
                    authenticateAndVerify cfg (srv_db srv) later ?h) \<and>
               (\<forall>later. jwt_exp j \<le> later div 1000 \<longrightarrow>
                  authenticateToken cfg later ?h =
                    Inl (errorJson 403 ''Invalid token'' ''Token is not valid or has expired'')))"
  proof
    assume a: "admitted cfg srv env req \<and> req_bodyError req = None \<and>
          authenticateToken cfg (env_now env) ?h = Inr u"
    then obtain j where j: "headerToken ?h = Some (JwtString j)" "jwt_secret j = JWT_SECRET cfg"
      "env_now env div 1000 < jwt_exp j" "jwt_payload j = u"
      unfolding authenticateToken_Inr by blast
    have "\<forall>later. later div 1000 < jwt_exp j \<longrightarrow> authenticateToken cfg later ?h = Inr u"
      using j unfolding authenticateToken_Inr by simp
    moreover have "\<forall>later. jwt_exp j \<le> later div 1000 \<longrightarrow>
            authenticateToken cfg later ?h =
              Inl (errorJson 403 ''Invalid token'' ''Token is not valid or has expired'')"
      using authenticateToken_expired [OF j(1)] by simp
    moreover have "fst (serve cfg libs srv env req) = Json (okJson 200 (Some ''Logout successful'') NoPayload)"
      unfolding s using a by (simp add: logout_def)
    ultimately show "fst (serve cfg libs srv env req) = Json (okJson 200 (Some ''Logout successful'') NoPayload) \<and>
            (\<exists>j. headerToken ?h = Some (JwtString j) \<and> jwt_payload j = u \<and>
               env_now env div 1000 < jwt_exp j \<and>
               (\<forall>later. later div 1000 < jwt_exp j \<longrightarrow>
                  authenticateToken cfg later ?h = Inr u \<and>
                  authenticateAndVerify cfg (srv_db (snd (serve cfg libs srv env req))) later ?h =
                    authenticateAndVerify cfg (srv_db srv) later ?h) \<and>
               (\<forall>later. jwt_exp j \<le> later div 1000 \<longrightarrow>
                  authenticateToken cfg later ?h =
                    Inl (errorJson 403 ''Invalid token'' ''Token is not valid or has expired'')))"
      using j frame by auto
  qed
  from frame hits refused served show ?thesis by simp
qed

lemma logoutRequest_fields:
  "req_route logoutRequest = LogoutRoute \<and> req_bodyError logoutRequest = None \<and>
   req_authorization logoutRequest = adminHeader \<and> req_ip logoutRequest = ''10.0.0.7''"
  by (simp add: logoutRequest_def pingRequest_def)

theorem logout_frame_witness:
  "req_route logoutRequest = LogoutRoute \<and> req_bodyError logoutRequest = None \<and>
   admitted cfg0 quietServer env0 logoutRequest \<and>
   authenticateToken cfg0 (env_now env0) adminHeader = Inr adminUser \<and>
   fst (serve cfg0 libs0 quietServer env0 logoutRequest) =
     Json (okJson 200 (Some ''Logout successful'') NoPayload) \<and>
   srv_db (snd (serve cfg0 libs0 quietServer env0 logoutRequest)) = srv_db quietServer \<and>
   authenticateToken cfg0 90000200 adminHeader = Inr adminUser \<and>
   \<not> admitted cfg0 busyServer env0 logoutRequest \<and>
   fst (serve cfg0 libs0 busyServer env0 logoutRequest) = Json tooManyRequests"
proof -
  note f = logoutRequest_fields
  have a: "authenticateToken cfg0 (env_now env0) adminHeader = Inr adminUser"
    by (simp add: auth_defs cfg0_def adminHeader_def adminUser_def env0_def)
  have ad: "admitted cfg0 quietServer env0 logoutRequest" "\<not> admitted cfg0 busyServer env0 logoutRequest"
    by (simp_all add: admitted_def countHit_def f cfg0_def env0_def quietServer_def busyServer_def)
  from logout_frame [of logoutRequest cfg0 libs0 quietServer env0 adminUser] f a ad(1)
  obtain j where j: "headerToken adminHeader = Some (JwtString j)"
    "\<forall>later. later div 1000 < jwt_exp j \<longrightarrow> authenticateToken cfg0 later adminHeader = Inr adminUser"
    and l: "fst (serve cfg0 libs0 quietServer env0 logoutRequest) =
              Json (okJson 200 (Some ''Logout successful'') NoPayload)"
      "srv_db (snd (serve cfg0 libs0 quietServer env0 logoutRequest)) = srv_db quietServer"
    by auto
  from j(1) have "jwt_exp j = 90000 + 604800"
    by (auto simp: adminHeader_def headerToken_def generateToken_def cfg0_def)
  with j(2) have 1: "authenticateToken cfg0 90000200 adminHeader = Inr adminUser" by simp
  from logout_frame [of logoutRequest cfg0 libs0 busyServer env0 adminUser] f ad(2)
  have 2: "fst (serve cfg0 libs0 busyServer env0 logoutRequest) = Json tooManyRequests" by simp
  from f a ad l 1 2 show ?thesis by simp
qed

text \<open>
  C10 as stated fails: a logout changes state of the server outside the database. The
  rate limiter counts it in the memory of the process, and a logout beyond the limit is
  not answered with success but with 429.
\<close>

theorem logout_is_counted_by_the_rate_limiter:
  "req_route logoutRequest = LogoutRoute \<and>
   authenticateToken cfg0 (env_now env0) (req_authorization logoutRequest) = Inr adminUser \<and>
   srv_hits quietServer ''10.0.0.7'' = Some (3, 90500000) \<and>
   fst (serve cfg0 libs0 quietServer env0 logoutRequest) =
     Json (okJson 200 (Some ''Logout successful'') NoPayload) \<and>
   srv_hits (snd (serve cfg0 libs0 quietServer env0 logoutRequest)) ''10.0.0.7'' = Some (4, 90500000) \<and>
   snd (serve cfg0 libs0 quietServer env0 logoutRequest) \<noteq> quietServer \<and>
   srv_hits busyServer ''10.0.0.7'' = Some (100, 90500000) \<and> RATE_LIMIT_MAX_REQUESTS cfg0 = 100 \<and>
   fst (serve cfg0 libs0 busyServer env0 logoutRequest) = Json tooManyRequests \<and>
   status tooManyRequests = 429"
proof -
  have a: "authenticateToken cfg0 (env_now env0) (req_authorization logoutRequest) = Inr adminUser"
    by (simp add: logoutRequest_fields auth_defs cfg0_def adminHeader_def adminUser_def env0_def)
  have q: "fst (serve cfg0 libs0 quietServer env0 logoutRequest) =
             Json (okJson 200 (Some ''Logout successful'') NoPayload) \<and>
           srv_hits (snd (serve cfg0 libs0 quietServer env0 logoutRequest)) ''10.0.0.7'' = Some (4, 90500000)"
    using a
    by (simp add: serve_def Let_def route_def logout_def countHit_def logoutRequest_fields
        quietServer_def cfg0_def env0_def)
  then have n: "snd (serve cfg0 libs0 quietServer env0 logoutRequest) \<noteq> quietServer"
    by (auto simp: quietServer_def)
  have b: "fst (serve cfg0 libs0 busyServer env0 logoutRequest) = Json tooManyRequests"
    by (simp add: serve_def Let_def countHit_def logoutRequest_fields busyServer_def cfg0_def env0_def)
  from a q n b show ?thesis
    by (simp add: logoutRequest_fields quietServer_def busyServer_def cfg0_def tooManyRequests_def)
qed

section \<open>Replies and errors\<close>






































section \<open>Generated values and the state of the server\<close>





















end
